(* ===== verification/Todo_Prelude.thy ===== *)
theory Todo_Prelude
  imports Main "HOL-Library.Multiset"
begin

text \<open>
  Shared vocabulary of the development: the lemma collections the component theories
  fill, the decimal rendering of numbers that the repository uses to build identifiers
  (with its parser and the round trip between them), and generic facts on lists that
  the repository, the service and the effects share.
\<close>

section \<open>Lemma collections\<close>

named_theorems repo_simps \<open>evaluation rules of the repository operations\<close>
named_theorems effect_simps \<open>evaluation rules of the effects and of dispatch\<close>

section \<open>Decimal rendering of natural numbers\<close>

text \<open>\<open>decimal n\<close> is the shortest base-10 rendering of \<open>n\<close>, most significant digit first.\<close>

definition digit_char :: "nat \<Rightarrow> char" where
  "digit_char d = char_of (48 + d)"

fun decimal :: "nat \<Rightarrow> string" where
  "decimal n = (if n < 10 then [digit_char n] else decimal (n div 10) @ [digit_char (n mod 10)])"

declare decimal.simps [simp del]

definition digit_value :: "char \<Rightarrow> nat" where
  "digit_value c = of_char c - 48"

definition parse_decimal :: "string \<Rightarrow> nat" where
  "parse_decimal cs = foldl (\<lambda>acc c. 10 * acc + digit_value c) 0 cs"

section \<open>Generic lemmas\<close>

lemma digit_value_digit_char [simp]: "d < 10 \<Longrightarrow> digit_value (digit_char d) = d"
  by (simp add: digit_value_def digit_char_def)

lemma decimal_nonempty [simp]: "decimal n \<noteq> []"
  by (subst decimal.simps) simp

lemma parse_decimal_snoc: "parse_decimal (cs @ [c]) = 10 * parse_decimal cs + digit_value c"
  by (simp add: parse_decimal_def)

lemma parse_decimal_decimal [simp]: "parse_decimal (decimal n) = n"
proof (induction n rule: decimal.induct)
  case (1 n)
  show ?case
  proof (cases "n < 10")
    case True
    then show ?thesis by (simp add: decimal.simps [of n] parse_decimal_def)
  next
    case False
    with "1.IH" have "parse_decimal (decimal (n div 10)) = n div 10" by simp
    with False show ?thesis by (simp add: decimal.simps [of n] parse_decimal_snoc)
  qed
qed

lemma decimal_inj: "decimal m = decimal n \<longleftrightarrow> m = n"
  by (metis parse_decimal_decimal)

lemma set_take_drop_subset: "set (take n (drop m xs)) \<subseteq> set xs"
  by (meson order.trans set_drop_subset set_take_subset)

lemma sorted_wrt_take_drop [intro]: "sorted_wrt R xs \<Longrightarrow> sorted_wrt R (take n (drop m xs))"
  by simp

lemma length_take_drop_le: "length (take n (drop m xs)) \<le> n"
  by simp

lemma map_update_other: "\<forall>x\<in>set xs. \<not> P x \<Longrightarrow> map (\<lambda>x. if P x then f x else x) xs = xs"
  by (induction xs) auto

lemma find_Some_in_set: "find P xs = Some x \<Longrightarrow> x \<in> set xs \<and> P x"
  by (induction xs) (auto split: if_splits)

lemma sorted_wrt_neq_distinct: "sorted_wrt (\<lambda>a b. f a \<noteq> f b) xs \<Longrightarrow> distinct (map f xs)"
  by (induction xs) auto

lemma sorted_wrt_map_same_key:
  "sorted_wrt (\<lambda>a b. k a < k b) xs \<Longrightarrow> (\<And>x. x \<in> set xs \<Longrightarrow> k (f x) = k x) \<Longrightarrow>
   sorted_wrt (\<lambda>a b. k a < k b) (map f xs)"
  by (induction xs) auto

lemma set_dropWhile_subset: "set (dropWhile P xs) \<subseteq> set xs"
  by (induction xs) auto

lemma dropWhile_all_iff: "(\<forall>x\<in>set (dropWhile P xs). P x) \<longleftrightarrow> (\<forall>x\<in>set xs. P x)"
  by (induction xs) auto

lemma find_None_iff_all: "find P xs = None \<longleftrightarrow> (\<forall>x\<in>set xs. \<not> P x)"
  by (induction xs) auto

end
