(* ===== verification/Todo_Repository.thy ===== *)
theory Todo_Repository
  imports Todo_Prelude
begin

text \<open>
  The Todo repository of spec sections 3 and 4.1: the backing store behind the remote
  API that \<open>TodoService\<close> calls. Its code is not part of \<open>src/\<close>; it is modelled
  from the spec. The store is a list of todos in creation order and a sequence counter;
  \<open>create\<close> assigns the identifier \<open>''t''\<close> followed by the counter in decimal and
  uses the counter as the creation timestamp, so identifiers are unique and the list is
  ordered by \<open>createdAt\<close>. Every operation returns an \<open>outcome\<close>: \<open>Success\<close> or
  \<open>Failure\<close> with an error kind and a message, as the spec's \<open>OperationResult\<close>.
\<close>

section \<open>Data model\<close>

record todo =
  todo_id :: string
  title :: string
  completed :: bool
  createdAt :: nat

datatype error_kind = ValidationError | NotFound | ServiceUnavailable | UnknownError

datatype 'a outcome = Success 'a | Failure error_kind string

text \<open>The partial fields of an update (spec 4.1 \<open>partialFields\<close>): absent fields are kept.\<close>

record todo_patch =
  patch_title :: "string option"
  patch_completed :: "bool option"

record repo =
  todos :: "todo list"
  seq :: nat

section \<open>Operations\<close>

definition mk_id :: "nat \<Rightarrow> string" where
  "mk_id n = CHR ''t'' # decimal n"

definition repo_init :: repo where
  "repo_init = \<lparr>todos = [], seq = 1\<rparr>"

definition lookup_todo :: "string \<Rightarrow> repo \<Rightarrow> todo option" where
  "lookup_todo i r = find (\<lambda>t. todo_id t = i) (todos r)"

definition repo_create :: "string \<Rightarrow> repo \<Rightarrow> todo outcome \<times> repo" where
  "repo_create ttl r =
     (if ttl = [] then (Failure ValidationError ''title must not be empty'', r)
      else let t = \<lparr>todo_id = mk_id (seq r), title = ttl, completed = False, createdAt = seq r\<rparr>
           in (Success t, r\<lparr>todos := todos r @ [t], seq := Suc (seq r)\<rparr>))"

definition repo_find :: "string \<Rightarrow> repo \<Rightarrow> todo outcome" where
  "repo_find i r =
     (case lookup_todo i r of
        None \<Rightarrow> Failure NotFound ''no such todo''
      | Some t \<Rightarrow> Success t)"

definition repo_findAll :: "nat \<Rightarrow> nat \<Rightarrow> repo \<Rightarrow> todo list outcome" where
  "repo_findAll offset limit r =
     (if limit = 0 then Failure ValidationError ''limit must be positive''
      else Success (take limit (drop offset (todos r))))"

definition merge_patch :: "todo_patch \<Rightarrow> todo \<Rightarrow> todo" where
  "merge_patch p t =
     t\<lparr>title := (case patch_title p of None \<Rightarrow> title t | Some s \<Rightarrow> s),
       completed := (case patch_completed p of None \<Rightarrow> completed t | Some b \<Rightarrow> b)\<rparr>"

definition repo_update :: "string \<Rightarrow> todo_patch \<Rightarrow> repo \<Rightarrow> todo outcome \<times> repo" where
  "repo_update i p r =
     (case lookup_todo i r of
        None \<Rightarrow> (Failure NotFound ''no such todo'', r)
      | Some t \<Rightarrow>
          (let t' = merge_patch p t in
           if title t' = [] then (Failure ValidationError ''title must not be empty'', r)
           else (Success t', r\<lparr>todos := map (\<lambda>u. if todo_id u = i then t' else u) (todos r)\<rparr>)))"

definition repo_remove :: "string \<Rightarrow> repo \<Rightarrow> unit outcome \<times> repo" where
  "repo_remove i r =
     (case lookup_todo i r of
        None \<Rightarrow> (Failure NotFound ''no such todo'', r)
      | Some _ \<Rightarrow> (Success (), r\<lparr>todos := filter (\<lambda>t. todo_id t \<noteq> i) (todos r)\<rparr>))"

section \<open>Well-formedness\<close>

text \<open>
  The store is ordered by strictly increasing \<open>createdAt\<close>; each todo's identifier is
  the one built from its timestamp, every timestamp is below the counter, and no title
  is empty.
\<close>

definition repo_wf :: "repo \<Rightarrow> bool" where
  "repo_wf r \<longleftrightarrow>
     sorted_wrt (\<lambda>a b. createdAt a < createdAt b) (todos r) \<and>
     (\<forall>t\<in>set (todos r). todo_id t = mk_id (createdAt t) \<and> createdAt t < seq r \<and> title t \<noteq> [])"

text \<open>A todo as the contract describes it: its identifier encodes its timestamp, its title is set.\<close>

definition todo_ok :: "todo \<Rightarrow> bool" where
  "todo_ok t \<longleftrightarrow> todo_id t = mk_id (createdAt t) \<and> title t \<noteq> []"

section \<open>Lemmas\<close>

lemma mk_id_inj [simp]: "mk_id m = mk_id n \<longleftrightarrow> m = n"
  by (simp add: mk_id_def decimal_inj)

lemma lookup_todo_Some: "lookup_todo i r = Some t \<Longrightarrow> t \<in> set (todos r) \<and> todo_id t = i"
  unfolding lookup_todo_def by (rule find_Some_in_set)

lemma lookup_todo_None: "lookup_todo i r = None \<longleftrightarrow> i \<notin> todo_id ` set (todos r)"
  unfolding lookup_todo_def find_None_iff_all by auto

lemma merge_patch_simps [simp]:
  "todo_id (merge_patch p t) = todo_id t"
  "createdAt (merge_patch p t) = createdAt t"
  by (simp_all add: merge_patch_def)

lemma repo_wf_same_id:
  "repo_wf r \<Longrightarrow> t \<in> set (todos r) \<Longrightarrow> u \<in> set (todos r) \<Longrightarrow> todo_id t = todo_id u \<Longrightarrow>
   createdAt t = createdAt u"
  by (auto simp: repo_wf_def)

lemma repo_wf_distinct_ids: "repo_wf r \<Longrightarrow> distinct (map todo_id (todos r))"
proof -
  assume wf: "repo_wf r"
  then have "sorted_wrt (\<lambda>a b. createdAt a < createdAt b) (todos r)"
    by (simp add: repo_wf_def)
  then have "sorted_wrt (\<lambda>a b. todo_id a \<noteq> todo_id b) (todos r)"
    by (rule sorted_wrt_mono_rel[rotated])
       (use wf in \<open>auto simp: repo_wf_def\<close>)
  then show ?thesis
    by (rule sorted_wrt_neq_distinct)
qed

lemma repo_wf_init [intro]: "repo_wf repo_init"
  by (simp add: repo_wf_def repo_init_def)

lemma repo_create_wf:
  "repo_wf r \<Longrightarrow> repo_wf (snd (repo_create ttl r))"
  by (auto simp: repo_wf_def repo_create_def Let_def sorted_wrt_append less_SucI)

lemma repo_update_wf:
  assumes wf: "repo_wf r"
  shows "repo_wf (snd (repo_update i p r))"
proof (cases "lookup_todo i r")
  case None
  with wf show ?thesis by (simp add: repo_update_def)
next
  case (Some t)
  then have t: "t \<in> set (todos r)" "todo_id t = i" by (auto dest: lookup_todo_Some)
  let ?f = "\<lambda>u. if todo_id u = i then merge_patch p t else u"
  have same: "createdAt (?f u) = createdAt u" if "u \<in> set (todos r)" for u
    using repo_wf_same_id [OF wf that t(1)] t(2) by auto
  have sorted: "sorted_wrt (\<lambda>a b. createdAt a < createdAt b) (map ?f (todos r))"
    using wf same by (auto simp: repo_wf_def intro: sorted_wrt_map_same_key)
  show ?thesis
    using wf t sorted same
    by (auto simp: repo_wf_def repo_update_def Some Let_def)
qed

lemma repo_remove_wf:
  "repo_wf r \<Longrightarrow> repo_wf (snd (repo_remove i r))"
  by (auto simp: repo_wf_def repo_remove_def sorted_wrt_filter split: option.splits)

lemmas repo_ops_wf [intro] = repo_create_wf repo_update_wf repo_remove_wf

lemma repo_create_Success:
  "repo_create ttl r = (Success t, r') \<longleftrightarrow>
     ttl \<noteq> [] \<and> t = \<lparr>todo_id = mk_id (seq r), title = ttl, completed = False, createdAt = seq r\<rparr> \<and>
     r' = r\<lparr>todos := todos r @ [t], seq := Suc (seq r)\<rparr>"
  by (auto simp: repo_create_def Let_def)

lemma find_map_replace:
  "find (\<lambda>t. todo_id t = i) xs \<noteq> None \<Longrightarrow> todo_id t' = i \<Longrightarrow>
   find (\<lambda>t. todo_id t = i) (map (\<lambda>u. if todo_id u = i then t' else u) xs) = Some t'"
  by (induction xs) auto

lemma repo_update_Success:
  assumes "lookup_todo i r = Some t" and "title (merge_patch p t) \<noteq> []"
  shows "fst (repo_update i p r) = Success (merge_patch p t) \<and>
         lookup_todo i (snd (repo_update i p r)) = Some (merge_patch p t)"
proof -
  have "todo_id t = i" using lookup_todo_Some [OF assms(1)] by simp
  with assms show ?thesis
    by (simp add: repo_update_def lookup_todo_def find_map_replace Let_def)
qed

lemma repo_ops_absent:
  assumes "i \<notin> todo_id ` set (todos r)"
  shows "repo_find i r = Failure NotFound ''no such todo''"
    and "repo_update i p r = (Failure NotFound ''no such todo'', r)"
    and "repo_remove i r = (Failure NotFound ''no such todo'', r)"
  using assms lookup_todo_None [of i r]
  by (simp_all add: repo_find_def repo_update_def repo_remove_def)

lemma repo_findAll_Success:
  "repo_findAll off lim r = Success ts \<Longrightarrow>
   0 < lim \<and> ts = take lim (drop off (todos r))"
  by (simp add: repo_findAll_def split: if_splits)

lemma repo_create_fresh:
  "repo_wf r \<Longrightarrow> repo_create ttl r = (Success t, r') \<Longrightarrow> todo_id t \<notin> todo_id ` set (todos r)"
  by (auto simp: repo_create_Success repo_wf_def)

lemma repo_wf_todo_ok: "repo_wf r \<Longrightarrow> t \<in> set (todos r) \<Longrightarrow> todo_ok t"
  by (simp add: repo_wf_def todo_ok_def)

text \<open>Every todo an operation returns is in the store it leaves.\<close>

lemma repo_results_stored:
  "repo_create ttl r = (Success t, r') \<Longrightarrow> t \<in> set (todos r')"
  "repo_update i p r = (Success t, r') \<Longrightarrow> t \<in> set (todos r')"
  "repo_find i r = Success t \<Longrightarrow> t \<in> set (todos r)"
  "repo_findAll off lim r = Success ts \<Longrightarrow> set ts \<subseteq> set (todos r)"
  by (auto simp: repo_create_Success repo_update_def repo_find_def repo_findAll_def Let_def
      image_iff dest!: lookup_todo_Some dest: set_take_drop_subset [THEN subsetD]
      split: option.splits if_splits)

lemma lookup_todo_removed: "lookup_todo i (snd (repo_remove i r)) = None"
  by (auto simp: repo_remove_def lookup_todo_None split: option.splits dest: lookup_todo_Some)

end
