(* ===== verification/Todo_Service.thy ===== *)
theory Todo_Service
  imports Todo_Repository
begin

text \<open>
  \<open>TodoService\<close> (spec 4.2 and 6), which the effects call as
  \<open>todoService.findAll/find/create/update/remove\<close>. Its code is not part of
  \<open>src/\<close>; it is modelled from the spec: titles are trimmed as JavaScript's
  \<open>String.prototype.trim\<close> trims ASCII white space, a blank title is a
  \<open>ValidationError\<close>, and the repository's failures are passed through unchanged.
  A call goes over HTTP: it is either delivered (the repository runs it) or answered
  with an error status, mapped to an error kind as spec 6 says
  (404 \<open>NotFound\<close>, 400 \<open>ValidationError\<close>, 5xx \<open>ServiceUnavailable\<close>).
  \<open>trim\<close> is idempotent, so a store filled only through the service holds trimmed
  titles (\<open>titles_trimmed\<close>).
\<close>

section \<open>Title normalisation\<close>

definition is_ws :: "char \<Rightarrow> bool" where
  "is_ws c \<longleftrightarrow> of_char c \<in> set [9, 10, 11, 12, 13, 32 :: nat]"

definition trim :: "string \<Rightarrow> string" where
  "trim s = rev (dropWhile is_ws (rev (dropWhile is_ws s)))"

section \<open>The five service operations\<close>

definition service_loadAll :: "nat \<Rightarrow> nat \<Rightarrow> repo \<Rightarrow> todo list outcome \<times> repo" where
  "service_loadAll offset limit r = (repo_findAll offset limit r, r)"

definition service_load :: "string \<Rightarrow> repo \<Rightarrow> todo outcome \<times> repo" where
  "service_load i r = (repo_find i r, r)"

definition service_create :: "string \<Rightarrow> repo \<Rightarrow> todo outcome \<times> repo" where
  "service_create ttl r =
     (let t = trim ttl in
      if t = [] then (Failure ValidationError ''title must not be blank'', r)
      else repo_create t r)"

definition service_update :: "string \<Rightarrow> todo_patch \<Rightarrow> repo \<Rightarrow> todo outcome \<times> repo" where
  "service_update i p r =
     (case patch_title p of
        None \<Rightarrow> repo_update i p r
      | Some s \<Rightarrow>
          (let t = trim s in
           if t = [] then (Failure ValidationError ''title must not be blank'', r)
           else repo_update i (p\<lparr>patch_title := Some t\<rparr>) r))"

definition service_remove :: "string \<Rightarrow> repo \<Rightarrow> unit outcome \<times> repo" where
  "service_remove i r = repo_remove i r"

section \<open>Transport\<close>

datatype transport = Delivered | HttpError nat

definition error_of_status :: "nat \<Rightarrow> error_kind" where
  "error_of_status st =
     (if st = 404 then NotFound
      else if st = 400 then ValidationError
      else if 500 \<le> st \<and> st < 600 then ServiceUnavailable
      else UnknownError)"

text \<open>A call answered with an error status never reaches the repository.\<close>

definition over_http :: "transport \<Rightarrow> (repo \<Rightarrow> 'a outcome \<times> repo) \<Rightarrow> repo \<Rightarrow> 'a outcome \<times> repo" where
  "over_http tr call r =
     (case tr of
        Delivered \<Rightarrow> call r
      | HttpError st \<Rightarrow> (Failure (error_of_status st) (''HTTP '' @ decimal st), r))"

section \<open>Normalised store\<close>

text \<open>Every title in the store is its own trimmed form, as the service only stores trimmed titles.\<close>

definition titles_trimmed :: "repo \<Rightarrow> bool" where
  "titles_trimmed r \<longleftrightarrow> (\<forall>t\<in>set (todos r). trim (title t) = title t)"

section \<open>Lemmas\<close>

lemma trim_ends_not_ws:
  assumes "trim s \<noteq> []"
  shows "\<not> is_ws (hd (trim s)) \<and> \<not> is_ws (last (trim s))"
proof -
  let ?d = "dropWhile is_ws s"
  let ?e = "dropWhile is_ws (rev ?d)"
  have e: "?e \<noteq> []" using assms by (simp add: trim_def)
  have d: "?d \<noteq> []"
  proof
    assume "?d = []"
    with e show False by simp
  qed
  have "last ?e = last (rev ?d)"
    by (metis e takeWhile_dropWhile_id last_appendR)
  then have "hd (trim s) = hd ?d"
    using e d by (simp add: trim_def hd_rev last_rev)
  moreover have "\<not> is_ws (hd ?d)" using d hd_dropWhile by blast
  moreover have "\<not> is_ws (hd ?e)" using e hd_dropWhile by blast
  moreover have "last (trim s) = hd ?e"
    using e by (simp add: trim_def last_rev)
  ultimately show ?thesis by simp
qed

lemma trim_empty_iff: "trim s = [] \<longleftrightarrow> (\<forall>c\<in>set s. is_ws c)"
  by (simp add: trim_def dropWhile_eq_Nil_conv dropWhile_all_iff)

lemma set_trim_subset: "set (trim s) \<subseteq> set s"
  using set_dropWhile_subset [of is_ws s] set_dropWhile_subset [of is_ws "rev (dropWhile is_ws s)"]
  by (auto simp: trim_def)

lemma service_create_wf: "repo_wf r \<Longrightarrow> repo_wf (snd (service_create ttl r))"
  by (auto simp: service_create_def Let_def)

lemma service_update_wf: "repo_wf r \<Longrightarrow> repo_wf (snd (service_update i p r))"
  by (auto simp: service_update_def Let_def split: option.splits)

lemma service_remove_wf: "repo_wf r \<Longrightarrow> repo_wf (snd (service_remove i r))"
  by (auto simp: service_remove_def)

text \<open>A property of the store kept by a call is kept by the call over HTTP.\<close>

lemma over_http_keeps: "P r \<Longrightarrow> P (snd (call r)) \<Longrightarrow> P (snd (over_http tr call r))"
  by (simp add: over_http_def split: transport.splits)

lemmas over_http_wf = over_http_keeps [where P = repo_wf]

lemmas service_ops_wf [intro] = service_create_wf service_update_wf service_remove_wf

lemma service_create_Success:
  "service_create ttl r = (Success t, r') \<Longrightarrow>
     title t = trim ttl \<and> completed t = False \<and> todo_id t = mk_id (seq r) \<and>
     r' = r\<lparr>todos := todos r @ [t], seq := Suc (seq r)\<rparr>"
  by (auto simp: service_create_def repo_create_Success Let_def split: if_splits)

lemma over_http_Delivered [simp]: "over_http Delivered call r = call r"
  by (simp add: over_http_def)

lemma over_http_error [simp]:
  "over_http (HttpError st) call r = (Failure (error_of_status st) (''HTTP '' @ decimal st), r)"
  by (simp add: over_http_def)

lemma error_of_status_cases [simp]:
  "error_of_status 404 = NotFound"
  "error_of_status 400 = ValidationError"
  "500 \<le> st \<Longrightarrow> st < 600 \<Longrightarrow> error_of_status st = ServiceUnavailable"
  by (simp_all add: error_of_status_def)

lemma service_results_stored:
  "service_create ttl r = (Success t, r') \<Longrightarrow> t \<in> set (todos r')"
  "service_update i p r = (Success t, r') \<Longrightarrow> t \<in> set (todos r')"
  "service_load i r = (Success t, r') \<Longrightarrow> t \<in> set (todos r')"
  "service_loadAll off lim r = (Success ts, r') \<Longrightarrow> set ts \<subseteq> set (todos r')"
  by (auto simp: service_create_def service_update_def service_load_def service_loadAll_def Let_def
      intro: repo_results_stored dest: repo_results_stored(4) split: option.splits if_splits)

lemma over_http_Success: "over_http tr call r = (Success x, r') \<Longrightarrow> call r = (Success x, r')"
  by (cases tr) simp_all

lemma trim_idem [simp]: "trim (trim s) = trim s"
proof (cases "trim s = []")
  case True
  then show ?thesis by (simp add: trim_def [of "[]"])
next
  case False
  then have "\<not> is_ws (hd (trim s))" "\<not> is_ws (last (trim s))" using trim_ends_not_ws by blast+
  with False have "dropWhile is_ws (trim s) = trim s" "dropWhile is_ws (rev (trim s)) = rev (trim s)"
    by (simp_all add: dropWhile_eq_self_iff hd_rev)
  then show ?thesis by (simp add: trim_def [of "trim s"])
qed

lemma titles_trimmed_init [intro]: "titles_trimmed repo_init"
  by (simp add: titles_trimmed_def repo_init_def)

lemma repo_create_trimmed:
  "titles_trimmed r \<Longrightarrow> trim ttl = ttl \<Longrightarrow> titles_trimmed (snd (repo_create ttl r))"
  by (simp add: titles_trimmed_def repo_create_def Let_def)

lemma repo_update_trimmed:
  assumes "titles_trimmed r" and "\<forall>s. patch_title p = Some s \<longrightarrow> trim s = s"
  shows "titles_trimmed (snd (repo_update i p r))"
  using assms
  by (auto simp: titles_trimmed_def repo_update_def merge_patch_def Let_def
      dest!: lookup_todo_Some split: option.splits)

lemma service_ops_trimmed:
  "titles_trimmed r \<Longrightarrow> titles_trimmed (snd (service_create ttl r))"
  "titles_trimmed r \<Longrightarrow> titles_trimmed (snd (service_update i p r))"
  "titles_trimmed r \<Longrightarrow> titles_trimmed (snd (service_remove i r))"
  by (auto simp: service_create_def service_update_def service_remove_def repo_remove_def Let_def
      titles_trimmed_def [of "snd (repo_remove i r)"] intro!: repo_create_trimmed repo_update_trimmed
      split: option.splits)
     (auto simp: titles_trimmed_def split: option.splits)

lemma service_create_nonblank:
  "trim ttl \<noteq> [] \<Longrightarrow>
   service_create ttl r =
     (Success \<lparr>todo_id = mk_id (seq r), title = trim ttl, completed = False, createdAt = seq r\<rparr>,
      r\<lparr>todos := todos r @ [\<lparr>todo_id = mk_id (seq r), title = trim ttl, completed = False, createdAt = seq r\<rparr>],
        seq := Suc (seq r)\<rparr>)"
  by (simp add: service_create_def repo_create_def Let_def)

lemma service_create_blank:
  "trim ttl = [] \<Longrightarrow> service_create ttl r = (Failure ValidationError ''title must not be blank'', r)"
  by (simp add: service_create_def)

lemma service_update_blank:
  "patch_title p = Some ttl \<Longrightarrow> trim ttl = [] \<Longrightarrow>
   service_update i p r = (Failure ValidationError ''title must not be blank'', r)"
  by (simp add: service_update_def)

end
