(* ===== verification/Todo_Actions.thy ===== *)
theory Todo_Actions
  imports Todo_Service
begin

text \<open>
  The NgRx actions of \<open>TodoActions\<close> (\<open>../actions\<close>, imported by
  \<open>todo.effect.ts\<close> line 13; the module is not part of \<open>src/\<close> and is modelled
  from the props the effects read and build). The error payload of a failure action is
  the error kind and message of the failed call. Commands are the actions that
  components dispatch; the success and failure actions are dispatched by the effects.
\<close>

type_synonym failure = "error_kind \<times> string"

datatype action =
    LoadAll nat nat | LoadAllSuccess "todo list" | LoadAllFailure failure
  | Load string | LoadSuccess todo | LoadFailure failure
  | Create string | CreateSuccess todo | CreateFailure failure
  | Update string todo_patch | UpdateSuccess todo | UpdateFailure failure
  | Remove string | RemoveSuccess string | RemoveFailure failure
  | ShowCreateDialog | ShowEditDialog todo | ShowRemoveDialog string

fun is_command :: "action \<Rightarrow> bool" where
  "is_command (LoadAll _ _) = True"
| "is_command (Load _) = True"
| "is_command (Create _) = True"
| "is_command (Update _ _) = True"
| "is_command (Remove _) = True"
| "is_command ShowCreateDialog = True"
| "is_command (ShowEditDialog _) = True"
| "is_command (ShowRemoveDialog _) = True"
| "is_command _ = False"

end
