(* ===== verification/Todo_Dialogs.thy ===== *)
theory Todo_Dialogs
  imports Todo_Actions
begin

text \<open>
  The dialog half of \<open>TodoEffects\<close> (\<open>todo.effect.ts\<close>): the three dialog
  references (lines 20--22) and the six effects created with \<open>{dispatch: false}\<close>
  (lines 90--161). \<open>MatDialog\<close> is a library the effects only call; it is modelled
  as the list of the dialogs it has opened, each with its component, width, data and
  whether it is still open; \<open>open\<close> appends one and returns its index as the
  \<open>MatDialogRef\<close>, \<open>close\<close> marks it closed (closing a closed dialog changes
  nothing), and the user may dismiss an open dialog. A reference field that was never
  assigned is \<open>undefined\<close> in TypeScript (\<open>None\<close> here), and calling
  \<open>close()\<close> on it throws a \<open>TypeError\<close>, a value \<open>Inl e\<close> of the sum type.
  \<open>createEffect\<close> wraps every effect in NgRx's \<open>defaultEffectsErrorHandler\<close>: an
  error is reported to Angular's \<open>ErrorHandler\<close> and the effect is resubscribed, at
  most \<open>MAX_NUMBER_OF_RETRY_ATTEMPTS\<close> = 10 times; the last resubscription is to the
  bare effect, whose next error escapes the handler and ends the effect (NgRx then
  ends the whole \<open>TodoEffects\<close> stream, which the model does not follow). Only the three
  \<open>hide*Dialog$\<close> effects can throw, so only they carry a subscription state.
  The six effects react to six distinct action types, so the order in which they see an
  action (their subscription order, which resubscription changes) does not matter.
\<close>

section \<open>MatDialog\<close>

datatype dialog_component =
  TodoCreateDialogComponent | TodoEditDialogComponent | TodoDeleteDialogComponent

datatype dialog_data = NoData | TodoData todo | IdData string

record open_dialog =
  component :: dialog_component
  width :: "string option"
  data :: dialog_data
  is_open :: bool

definition mat_open ::
  "dialog_component \<Rightarrow> string option \<Rightarrow> dialog_data \<Rightarrow> open_dialog list \<Rightarrow> nat \<times> open_dialog list" where
  "mat_open c w d ds =
     (length ds, ds @ [\<lparr>component = c, width = w, data = d, is_open = True\<rparr>])"

definition mat_close :: "nat \<Rightarrow> open_dialog list \<Rightarrow> open_dialog list" where
  "mat_close r ds = (if r < length ds then ds[r := (ds ! r)\<lparr>is_open := False\<rparr>] else ds)"

section \<open>NgRx's effect error handler\<close>

datatype js_error = TypeError string

text \<open>
  The subscription of an effect under \<open>defaultEffectsErrorHandler\<close>
  (\<open>@ngrx/effects\<close>, \<open>effects_error_handler.ts\<close>): guarded with \<open>n\<close> attempts
  left, subscribed bare after the last attempt, or ended by an escaped error.
\<close>

datatype effect_sub = Guarded nat | Unguarded | Stopped

definition MAX_NUMBER_OF_RETRY_ATTEMPTS :: nat where
  "MAX_NUMBER_OF_RETRY_ATTEMPTS = 10"

section \<open>Dialog state of the effects class\<close>

record dialog_state =
  mat :: "open_dialog list"
  createDialogRef :: "nat option"
  editDialogRef :: "nat option"
  removeDialogRef :: "nat option"
  hideCreate_sub :: effect_sub
  hideEdit_sub :: effect_sub
  hideRemove_sub :: effect_sub
  reported :: "js_error list"
  uncaught :: "js_error list"

definition dialogs_init :: dialog_state where
  "dialogs_init = \<lparr>mat = [], createDialogRef = None, editDialogRef = None,
                    removeDialogRef = None, hideCreate_sub = Guarded MAX_NUMBER_OF_RETRY_ATTEMPTS,
                    hideEdit_sub = Guarded MAX_NUMBER_OF_RETRY_ATTEMPTS,
                    hideRemove_sub = Guarded MAX_NUMBER_OF_RETRY_ATTEMPTS,
                    reported = [], uncaught = []\<rparr>"

text \<open>
  \<open>catchError\<close> of \<open>defaultEffectsErrorHandler(observable$, errorHandler,
  retryAttemptLeft)\<close>: report the error, then resubscribe with one attempt less, or the
  bare \<open>observable$\<close> when \<open>retryAttemptLeft <= 1\<close>. An error of the bare effect
  escapes and the effect ends.
\<close>

definition effect_error :: "js_error \<Rightarrow> effect_sub \<Rightarrow> dialog_state \<Rightarrow> effect_sub \<times> dialog_state" where
  "effect_error e sub s =
     (case sub of
        Guarded n \<Rightarrow>
          (if n \<le> 1 then Unguarded else Guarded (n - 1), s\<lparr>reported := reported s @ [e]\<rparr>)
      | Unguarded \<Rightarrow> (Stopped, s\<lparr>uncaught := uncaught s @ [e]\<rparr>)
      | Stopped \<Rightarrow> (Stopped, s))"

text \<open>\<open>tap(...)\<close> of a subscribed effect: its callback, or the handler on a throw.\<close>

definition run_tap ::
  "effect_sub \<Rightarrow> (dialog_state \<Rightarrow> js_error + dialog_state) \<Rightarrow> dialog_state \<Rightarrow> effect_sub \<times> dialog_state" where
  "run_tap sub f s =
     (if sub = Stopped then (Stopped, s)
      else case f s of Inl e \<Rightarrow> effect_error e sub s | Inr s' \<Rightarrow> (sub, s'))"

text \<open>\<open>ref.close()\<close> on a reference field: a \<open>TypeError\<close> when it is undefined.\<close>

definition close_ref :: "nat option \<Rightarrow> dialog_state \<Rightarrow> js_error + dialog_state" where
  "close_ref ref s =
     (case ref of
        None \<Rightarrow> Inl (TypeError ''Cannot read properties of undefined (reading 'close')'')
      | Some r \<Rightarrow> Inr (s\<lparr>mat := mat_close r (mat s)\<rparr>))"

text \<open>
  The user closing an open dialog (backdrop click or Escape: \<open>disableClose\<close> is
  \<open>false\<close> in the configs the effects pass to \<open>MatDialog.open\<close>), through the
  dialog's own \<open>MatDialogRef.close\<close>. The effects' reference fields are not told.
\<close>

definition mat_dismiss :: "nat \<Rightarrow> dialog_state \<Rightarrow> dialog_state option" where
  "mat_dismiss r s =
     (if r < length (mat s) \<and> is_open (mat s ! r) then Some (s\<lparr>mat := mat_close r (mat s)\<rparr>) else None)"

section \<open>The six dialog effects\<close>

definition showCreateDialog_effect :: "action \<Rightarrow> dialog_state \<Rightarrow> dialog_state" where
  "showCreateDialog_effect a s =
     (case a of
        ShowCreateDialog \<Rightarrow>
          (let (r, ds) = mat_open TodoCreateDialogComponent (Some ''400px'') NoData (mat s)
           in s\<lparr>mat := ds, createDialogRef := Some r\<rparr>)
      | _ \<Rightarrow> s)"

definition hideCreateDialog_effect :: "action \<Rightarrow> dialog_state \<Rightarrow> dialog_state" where
  "hideCreateDialog_effect a s =
     (case a of
        CreateSuccess _ \<Rightarrow>
          (let (sub, s') = run_tap (hideCreate_sub s) (close_ref (createDialogRef s)) s in s'\<lparr>hideCreate_sub := sub\<rparr>)
      | _ \<Rightarrow> s)"

definition showEditDialog_effect :: "action \<Rightarrow> dialog_state \<Rightarrow> dialog_state" where
  "showEditDialog_effect a s =
     (case a of
        ShowEditDialog t \<Rightarrow>
          (let (r, ds) = mat_open TodoEditDialogComponent (Some ''400px'') (TodoData t) (mat s)
           in s\<lparr>mat := ds, editDialogRef := Some r\<rparr>)
      | _ \<Rightarrow> s)"

definition hideEditDialog_effect :: "action \<Rightarrow> dialog_state \<Rightarrow> dialog_state" where
  "hideEditDialog_effect a s =
     (case a of
        UpdateSuccess _ \<Rightarrow>
          (let (sub, s') = run_tap (hideEdit_sub s) (close_ref (editDialogRef s)) s in s'\<lparr>hideEdit_sub := sub\<rparr>)
      | _ \<Rightarrow> s)"

definition showRemoveDialog_effect :: "action \<Rightarrow> dialog_state \<Rightarrow> dialog_state" where
  "showRemoveDialog_effect a s =
     (case a of
        ShowRemoveDialog i \<Rightarrow>
          (let (r, ds) = mat_open TodoDeleteDialogComponent None (IdData i) (mat s)
           in s\<lparr>mat := ds, removeDialogRef := Some r\<rparr>)
      | _ \<Rightarrow> s)"

definition hideRemoveDialog_effect :: "action \<Rightarrow> dialog_state \<Rightarrow> dialog_state" where
  "hideRemoveDialog_effect a s =
     (case a of
        RemoveSuccess _ \<Rightarrow>
          (let (sub, s') = run_tap (hideRemove_sub s) (close_ref (removeDialogRef s)) s in s'\<lparr>hideRemove_sub := sub\<rparr>)
      | _ \<Rightarrow> s)"

text \<open>All six, in the order the class declares them, on one action.\<close>

definition dialog_effects :: "action \<Rightarrow> dialog_state \<Rightarrow> dialog_state" where
  "dialog_effects a s =
     hideRemoveDialog_effect a (showRemoveDialog_effect a
       (hideEditDialog_effect a (showEditDialog_effect a
         (hideCreateDialog_effect a (showCreateDialog_effect a s)))))"

section \<open>Invariant\<close>

text \<open>
  Every assigned reference names a dialog \<open>MatDialog\<close> opened, of the component
  its field is declared with.
\<close>

definition ref_ok :: "dialog_component \<Rightarrow> nat option \<Rightarrow> open_dialog list \<Rightarrow> bool" where
  "ref_ok c ref ds = (case ref of None \<Rightarrow> True | Some r \<Rightarrow> r < length ds \<and> component (ds ! r) = c)"

definition dialogs_wf :: "dialog_state \<Rightarrow> bool" where
  "dialogs_wf s \<longleftrightarrow>
     ref_ok TodoCreateDialogComponent (createDialogRef s) (mat s) \<and>
     ref_ok TodoEditDialogComponent (editDialogRef s) (mat s) \<and>
     ref_ok TodoDeleteDialogComponent (removeDialogRef s) (mat s)"

text \<open>
  The error handler's bookkeeping: a guarded subscription has between one and
  \<open>MAX_NUMBER_OF_RETRY_ATTEMPTS\<close> attempts left, each attempt used reported one
  error, and each ended effect let one error escape.
\<close>

fun sub_ok :: "effect_sub \<Rightarrow> bool" where
  "sub_ok (Guarded n) \<longleftrightarrow> 1 \<le> n \<and> n \<le> MAX_NUMBER_OF_RETRY_ATTEMPTS"
| "sub_ok _ \<longleftrightarrow> True"

fun sub_used :: "effect_sub \<Rightarrow> nat" where
  "sub_used (Guarded n) = MAX_NUMBER_OF_RETRY_ATTEMPTS - n"
| "sub_used _ = MAX_NUMBER_OF_RETRY_ATTEMPTS"

fun sub_escaped :: "effect_sub \<Rightarrow> nat" where
  "sub_escaped Stopped = 1"
| "sub_escaped _ = 0"

definition handler_wf :: "dialog_state \<Rightarrow> bool" where
  "handler_wf s \<longleftrightarrow>
     sub_ok (hideCreate_sub s) \<and> sub_ok (hideEdit_sub s) \<and> sub_ok (hideRemove_sub s) \<and>
     length (reported s) = sub_used (hideCreate_sub s) + sub_used (hideEdit_sub s) + sub_used (hideRemove_sub s) \<and>
     length (uncaught s) =
       sub_escaped (hideCreate_sub s) + sub_escaped (hideEdit_sub s) + sub_escaped (hideRemove_sub s)"

section \<open>Order of the effects\<close>

text \<open>
  The effects as the list of subscribers of \<open>actions$\<close>, and the one effect that
  reacts to an action (the identity when none does).
\<close>

definition dialog_effect_list :: "(action \<Rightarrow> dialog_state \<Rightarrow> dialog_state) list" where
  "dialog_effect_list =
     [showCreateDialog_effect, hideCreateDialog_effect, showEditDialog_effect,
      hideEditDialog_effect, showRemoveDialog_effect, hideRemoveDialog_effect]"

definition dialog_react :: "action \<Rightarrow> dialog_state \<Rightarrow> dialog_state" where
  "dialog_react a =
     (case a of
        ShowCreateDialog \<Rightarrow> showCreateDialog_effect a
      | CreateSuccess _ \<Rightarrow> hideCreateDialog_effect a
      | ShowEditDialog _ \<Rightarrow> showEditDialog_effect a
      | UpdateSuccess _ \<Rightarrow> hideEditDialog_effect a
      | ShowRemoveDialog _ \<Rightarrow> showRemoveDialog_effect a
      | RemoveSuccess _ \<Rightarrow> hideRemoveDialog_effect a
      | _ \<Rightarrow> id)"

section \<open>Lemmas\<close>

lemma mat_close_length [simp]: "length (mat_close r ds) = length ds"
  by (simp add: mat_close_def)

lemma mat_close_nth:
  "i < length ds \<Longrightarrow> mat_close r ds ! i = (if i = r then (ds ! i)\<lparr>is_open := False\<rparr> else ds ! i)"
  by (simp add: mat_close_def nth_list_update)

lemma mat_close_component [simp]:
  "i < length ds \<Longrightarrow> component (mat_close r ds ! i) = component (ds ! i)"
  by (simp add: mat_close_nth)

lemma ref_ok_mat_close [simp]: "ref_ok c ref (mat_close r ds) = ref_ok c ref ds"
  by (auto simp: ref_ok_def split: option.splits)

lemma ref_ok_append [simp]: "ref_ok c ref ds \<Longrightarrow> ref_ok c ref (ds @ [d])"
  by (auto simp: ref_ok_def nth_append split: option.splits)

lemma dialogs_wf_init [intro]: "dialogs_wf dialogs_init"
  by (simp add: dialogs_wf_def dialogs_init_def ref_ok_def)

lemma close_ref_None:
  "close_ref None s = Inl (TypeError ''Cannot read properties of undefined (reading 'close')'')"
  by (simp add: close_ref_def)

lemma close_ref_Some: "close_ref (Some r) s = Inr (s\<lparr>mat := mat_close r (mat s)\<rparr>)"
  by (simp add: close_ref_def)

lemmas dialog_effect_defs [effect_simps] =
  showCreateDialog_effect_def hideCreateDialog_effect_def showEditDialog_effect_def
  hideEditDialog_effect_def showRemoveDialog_effect_def hideRemoveDialog_effect_def mat_open_def

lemma run_tap_close_ref:
  "run_tap sub (close_ref ref) s =
     (if sub = Stopped then (Stopped, s)
      else case ref of
        None \<Rightarrow> effect_error (TypeError ''Cannot read properties of undefined (reading 'close')'') sub s
      | Some r \<Rightarrow> (sub, s\<lparr>mat := mat_close r (mat s)\<rparr>))"
  by (simp add: run_tap_def close_ref_def split: option.splits)

lemma effect_error_fields [simp]:
  "mat (snd (effect_error e sub s)) = mat s"
  "createDialogRef (snd (effect_error e sub s)) = createDialogRef s"
  "editDialogRef (snd (effect_error e sub s)) = editDialogRef s"
  "removeDialogRef (snd (effect_error e sub s)) = removeDialogRef s"
  "hideCreate_sub (snd (effect_error e sub s)) = hideCreate_sub s"
  "hideEdit_sub (snd (effect_error e sub s)) = hideEdit_sub s"
  "hideRemove_sub (snd (effect_error e sub s)) = hideRemove_sub s"
  by (cases sub; simp add: effect_error_def)+

text \<open>One error through the handler: the attempts used and the escaped errors count the log.\<close>

lemma effect_error_counts:
  assumes "sub_ok sub" "sub \<noteq> Stopped"
  shows "sub_ok (fst (effect_error e sub s)) \<and>
         sub_used (fst (effect_error e sub s)) + length (reported s) =
           sub_used sub + length (reported (snd (effect_error e sub s))) \<and>
         sub_escaped (fst (effect_error e sub s)) + length (uncaught s) =
           sub_escaped sub + length (uncaught (snd (effect_error e sub s)))"
  using assms
  by (cases sub) (auto simp: effect_error_def MAX_NUMBER_OF_RETRY_ATTEMPTS_def split: if_splits)

lemma run_tap_close_counts:
  assumes "sub_ok sub"
  shows "sub_ok (fst (run_tap sub (close_ref ref) s)) \<and>
         sub_used (fst (run_tap sub (close_ref ref) s)) + length (reported s) =
           sub_used sub + length (reported (snd (run_tap sub (close_ref ref) s))) \<and>
         sub_escaped (fst (run_tap sub (close_ref ref) s)) + length (uncaught s) =
           sub_escaped sub + length (uncaught (snd (run_tap sub (close_ref ref) s)))"
  using assms effect_error_counts [OF assms(1)]
  by (auto simp: run_tap_close_ref split: option.splits)

lemma run_tap_close_fields [simp]:
  "createDialogRef (snd (run_tap sub (close_ref ref) s)) = createDialogRef s"
  "editDialogRef (snd (run_tap sub (close_ref ref) s)) = editDialogRef s"
  "removeDialogRef (snd (run_tap sub (close_ref ref) s)) = removeDialogRef s"
  "hideCreate_sub (snd (run_tap sub (close_ref ref) s)) = hideCreate_sub s"
  "hideEdit_sub (snd (run_tap sub (close_ref ref) s)) = hideEdit_sub s"
  "hideRemove_sub (snd (run_tap sub (close_ref ref) s)) = hideRemove_sub s"
  by (simp_all add: run_tap_close_ref split: option.splits)

lemma dialog_effects_wf [intro]: "dialogs_wf s \<Longrightarrow> dialogs_wf (dialog_effects a s)"
  by (cases a)
     (auto simp: dialog_effects_def dialog_effect_defs dialogs_wf_def ref_ok_def nth_append split_def Let_def
        run_tap_close_ref split: option.splits)

lemma handler_wf_init [intro]: "handler_wf dialogs_init"
  by (simp add: handler_wf_def dialogs_init_def MAX_NUMBER_OF_RETRY_ATTEMPTS_def)

lemma dialog_effects_handler_wf [intro]: "handler_wf s \<Longrightarrow> handler_wf (dialog_effects a s)"
proof (cases a)
  case (CreateSuccess t)
  moreover assume "handler_wf s"
  moreover note run_tap_close_counts [of "hideCreate_sub s" "createDialogRef s" s]
  ultimately show ?thesis
    by (simp add: dialog_effects_def dialog_effect_defs handler_wf_def Let_def split_def)
next
  case (UpdateSuccess t)
  moreover assume "handler_wf s"
  moreover note run_tap_close_counts [of "hideEdit_sub s" "editDialogRef s" s]
  ultimately show ?thesis
    by (simp add: dialog_effects_def dialog_effect_defs handler_wf_def Let_def split_def)
next
  case (RemoveSuccess i)
  moreover assume "handler_wf s"
  moreover note run_tap_close_counts [of "hideRemove_sub s" "removeDialogRef s" s]
  ultimately show ?thesis
    by (simp add: dialog_effects_def dialog_effect_defs handler_wf_def Let_def split_def)
qed (simp_all add: dialog_effects_def dialog_effect_defs handler_wf_def Let_def split_def)

text \<open>Each effect is the identity on every action but its own.\<close>

lemma dialog_effect_reacts: "e \<in> set dialog_effect_list \<Longrightarrow> e a = id \<or> e a = dialog_react a"
  unfolding dialog_effect_list_def dialog_react_def
  by (cases a) (auto simp: fun_eq_iff dialog_effect_defs)

lemma dialog_effects_commute:
  "x \<in> set dialog_effect_list \<Longrightarrow> y \<in> set dialog_effect_list \<Longrightarrow> x a \<circ> y a = y a \<circ> x a"
  using dialog_effect_reacts [of x a] dialog_effect_reacts [of y a] by auto

lemma dialog_effects_fold: "dialog_effects a s = fold (\<lambda>e. e a) dialog_effect_list s"
  by (simp add: dialog_effects_def dialog_effect_list_def)

lemma mat_close_closed:
  "r < length ds \<Longrightarrow> \<not> is_open (ds ! r) \<Longrightarrow> mat_close r ds = ds"
  by (simp add: mat_close_def list_update_same_conv)

lemma mat_dismiss_wf:
  "mat_dismiss r s = Some d \<Longrightarrow> dialogs_wf s \<Longrightarrow> dialogs_wf d"
  "mat_dismiss r s = Some d \<Longrightarrow> handler_wf s \<Longrightarrow> handler_wf d"
  by (auto simp: mat_dismiss_def dialogs_wf_def handler_wf_def split: if_splits)

end
