(* ===== verification/Todo_Effects.thy ===== *)
theory Todo_Effects
  imports Todo_Dialogs
begin

text \<open>
  The five dispatching effects of \<open>TodoEffects\<close> (\<open>todo.effect.ts\<close> lines 30--88)
  and the store dispatch that feeds their output back into \<open>actions$\<close>.
  Each effect maps its command to a service call: \<open>loadAll$\<close> with \<open>switchMap\<close>,
  the four others with \<open>concatMap\<close>. The RxJS state of an effect is its inner
  subscription(s): for \<open>switchMap\<close> the one request in flight (a new command
  unsubscribes the old one, whose answer is then never seen); for \<open>concatMap\<close> the
  queue of requests, whose head is the one in flight and whose tail is buffered until it
  completes. A response is the inner observable emitting: the service call runs against
  the server (or fails in transport), \<open>map\<close> turns the result into the success action
  and \<open>catchError\<close> turns a failure into the failure action, which is dispatched to
  the store and seen by every effect. The state also keeps the store's action log and
  the server's log of the requests it processed, in order.
\<close>

section \<open>Requests, slots and the RxJS state\<close>

datatype request =
    ReqLoadAll nat nat | ReqLoad string | ReqCreate string
  | ReqUpdate string todo_patch | ReqRemove string

datatype slot = LoadAllSlot | LoadSlot | CreateSlot | UpdateSlot | RemoveSlot

record effects_state =
  loadAll_inflight :: "(nat \<times> nat) option"
  load_queue :: "string list"
  create_queue :: "string list"
  update_queue :: "(string \<times> todo_patch) list"
  remove_queue :: "string list"

definition rx_init :: effects_state where
  "rx_init = \<lparr>loadAll_inflight = None, load_queue = [], create_queue = [],
              update_queue = [], remove_queue = []\<rparr>"

record app_state =
  rx :: effects_state
  ui :: dialog_state
  server :: repo
  store_log :: "action list"
  server_log :: "request list"

definition app_init :: app_state where
  "app_init = \<lparr>rx = rx_init, ui = dialogs_init, server = repo_init, store_log = [], server_log = []\<rparr>"

section \<open>The dispatching effects on a command\<close>

text \<open>\<open>loadAll$\<close>: \<open>switchMap\<close> drops the request in flight and starts the new one.\<close>

definition loadAll_effect :: "action \<Rightarrow> effects_state \<Rightarrow> effects_state" where
  "loadAll_effect a q =
     (case a of LoadAll off lim \<Rightarrow> q\<lparr>loadAll_inflight := Some (off, lim)\<rparr> | _ \<Rightarrow> q)"

text \<open>\<open>load$\<close>, \<open>create$\<close>, \<open>update$\<close>, \<open>remove$\<close>: \<open>concatMap\<close> queues the request.\<close>

definition load_effect :: "action \<Rightarrow> effects_state \<Rightarrow> effects_state" where
  "load_effect a q = (case a of Load i \<Rightarrow> q\<lparr>load_queue := load_queue q @ [i]\<rparr> | _ \<Rightarrow> q)"

definition create_effect :: "action \<Rightarrow> effects_state \<Rightarrow> effects_state" where
  "create_effect a q = (case a of Create t \<Rightarrow> q\<lparr>create_queue := create_queue q @ [t]\<rparr> | _ \<Rightarrow> q)"

definition update_effect :: "action \<Rightarrow> effects_state \<Rightarrow> effects_state" where
  "update_effect a q =
     (case a of Update i p \<Rightarrow> q\<lparr>update_queue := update_queue q @ [(i, p)]\<rparr> | _ \<Rightarrow> q)"

definition remove_effect :: "action \<Rightarrow> effects_state \<Rightarrow> effects_state" where
  "remove_effect a q = (case a of Remove i \<Rightarrow> q\<lparr>remove_queue := remove_queue q @ [i]\<rparr> | _ \<Rightarrow> q)"

definition data_effects :: "action \<Rightarrow> effects_state \<Rightarrow> effects_state" where
  "data_effects a q = remove_effect a (update_effect a (create_effect a (load_effect a (loadAll_effect a q))))"

text \<open>\<open>store.dispatch\<close>: the action is logged by the store and then seen by every effect.\<close>

definition dispatch :: "action \<Rightarrow> app_state \<Rightarrow> app_state" where
  "dispatch a s =
     s\<lparr>store_log := store_log s @ [a], rx := data_effects a (rx s), ui := dialog_effects a (ui s)\<rparr>"

section \<open>Responses\<close>

definition served :: "transport \<Rightarrow> request \<Rightarrow> request list" where
  "served tr req = (case tr of Delivered \<Rightarrow> [req] | HttpError _ \<Rightarrow> [])"

text \<open>The end of a service call: the server's new state, its log, and the dispatched action.\<close>

definition complete :: "transport \<Rightarrow> request \<Rightarrow> repo \<Rightarrow> action \<Rightarrow> app_state \<Rightarrow> app_state" where
  "complete tr req r' a s = dispatch a (s\<lparr>server := r', server_log := server_log s @ served tr req\<rparr>)"

text \<open>
  \<open>map(result => ...Success(...))\<close> and \<open>catchError(error => of(...Failure({error})))\<close>
  of each effect: the answer action of a service result.
\<close>

definition loadAll_answer :: "todo list outcome \<Rightarrow> action" where
  "loadAll_answer res = (case res of Success ts \<Rightarrow> LoadAllSuccess ts | Failure k m \<Rightarrow> LoadAllFailure (k, m))"

definition load_answer :: "todo outcome \<Rightarrow> action" where
  "load_answer res = (case res of Success t \<Rightarrow> LoadSuccess t | Failure k m \<Rightarrow> LoadFailure (k, m))"

definition create_answer :: "todo outcome \<Rightarrow> action" where
  "create_answer res = (case res of Success t \<Rightarrow> CreateSuccess t | Failure k m \<Rightarrow> CreateFailure (k, m))"

definition update_answer :: "todo outcome \<Rightarrow> action" where
  "update_answer res = (case res of Success t \<Rightarrow> UpdateSuccess t | Failure k m \<Rightarrow> UpdateFailure (k, m))"

text \<open>\<open>remove$\<close> answers with the id of the command, not with the service's result (line 83).\<close>

definition remove_answer :: "string \<Rightarrow> unit outcome \<Rightarrow> action" where
  "remove_answer i res = (case res of Success _ \<Rightarrow> RemoveSuccess i | Failure k m \<Rightarrow> RemoveFailure (k, m))"

definition respond_loadAll :: "transport \<Rightarrow> app_state \<Rightarrow> app_state option" where
  "respond_loadAll tr s =
     (case loadAll_inflight (rx s) of
        None \<Rightarrow> None
      | Some (off, lim) \<Rightarrow>
          (let (res, r') = over_http tr (service_loadAll off lim) (server s)
           in Some (complete tr (ReqLoadAll off lim) r'
                (loadAll_answer res)
                (s\<lparr>rx := (rx s)\<lparr>loadAll_inflight := None\<rparr>\<rparr>))))"

definition respond_load :: "transport \<Rightarrow> app_state \<Rightarrow> app_state option" where
  "respond_load tr s =
     (case load_queue (rx s) of
        [] \<Rightarrow> None
      | i # rest \<Rightarrow>
          (let (res, r') = over_http tr (service_load i) (server s)
           in Some (complete tr (ReqLoad i) r'
                (load_answer res)
                (s\<lparr>rx := (rx s)\<lparr>load_queue := rest\<rparr>\<rparr>))))"

definition respond_create :: "transport \<Rightarrow> app_state \<Rightarrow> app_state option" where
  "respond_create tr s =
     (case create_queue (rx s) of
        [] \<Rightarrow> None
      | t # rest \<Rightarrow>
          (let (res, r') = over_http tr (service_create t) (server s)
           in Some (complete tr (ReqCreate t) r'
                (create_answer res)
                (s\<lparr>rx := (rx s)\<lparr>create_queue := rest\<rparr>\<rparr>))))"

definition respond_update :: "transport \<Rightarrow> app_state \<Rightarrow> app_state option" where
  "respond_update tr s =
     (case update_queue (rx s) of
        [] \<Rightarrow> None
      | (i, p) # rest \<Rightarrow>
          (let (res, r') = over_http tr (service_update i p) (server s)
           in Some (complete tr (ReqUpdate i p) r'
                (update_answer res)
                (s\<lparr>rx := (rx s)\<lparr>update_queue := rest\<rparr>\<rparr>))))"

definition respond_remove :: "transport \<Rightarrow> app_state \<Rightarrow> app_state option" where
  "respond_remove tr s =
     (case remove_queue (rx s) of
        [] \<Rightarrow> None
      | i # rest \<Rightarrow>
          (let (res, r') = over_http tr (service_remove i) (server s)
           in Some (complete tr (ReqRemove i) r'
                (remove_answer i res)
                (s\<lparr>rx := (rx s)\<lparr>remove_queue := rest\<rparr>\<rparr>))))"

definition respond :: "slot \<Rightarrow> transport \<Rightarrow> app_state \<Rightarrow> app_state option" where
  "respond sl tr s =
     (case sl of
        LoadAllSlot \<Rightarrow> respond_loadAll tr s
      | LoadSlot \<Rightarrow> respond_load tr s
      | CreateSlot \<Rightarrow> respond_create tr s
      | UpdateSlot \<Rightarrow> respond_update tr s
      | RemoveSlot \<Rightarrow> respond_remove tr s)"

section \<open>Pending requests of a slot\<close>

definition pending :: "slot \<Rightarrow> effects_state \<Rightarrow> request list" where
  "pending sl q =
     (case sl of
        LoadAllSlot \<Rightarrow> (case loadAll_inflight q of None \<Rightarrow> [] | Some (off, lim) \<Rightarrow> [ReqLoadAll off lim])
      | LoadSlot \<Rightarrow> map ReqLoad (load_queue q)
      | CreateSlot \<Rightarrow> map ReqCreate (create_queue q)
      | UpdateSlot \<Rightarrow> map (\<lambda>(i, p). ReqUpdate i p) (update_queue q)
      | RemoveSlot \<Rightarrow> map ReqRemove (remove_queue q))"

fun request_of :: "action \<Rightarrow> request option" where
  "request_of (LoadAll off lim) = Some (ReqLoadAll off lim)"
| "request_of (Load i) = Some (ReqLoad i)"
| "request_of (Create t) = Some (ReqCreate t)"
| "request_of (Update i p) = Some (ReqUpdate i p)"
| "request_of (Remove i) = Some (ReqRemove i)"
| "request_of _ = None"

fun slot_of :: "request \<Rightarrow> slot" where
  "slot_of (ReqLoadAll _ _) = LoadAllSlot"
| "slot_of (ReqLoad _) = LoadSlot"
| "slot_of (ReqCreate _) = CreateSlot"
| "slot_of (ReqUpdate _ _) = UpdateSlot"
| "slot_of (ReqRemove _) = RemoveSlot"

fun outcome_slot :: "action \<Rightarrow> slot option" where
  "outcome_slot (LoadAllSuccess _) = Some LoadAllSlot"
| "outcome_slot (LoadAllFailure _) = Some LoadAllSlot"
| "outcome_slot (LoadSuccess _) = Some LoadSlot"
| "outcome_slot (LoadFailure _) = Some LoadSlot"
| "outcome_slot (CreateSuccess _) = Some CreateSlot"
| "outcome_slot (CreateFailure _) = Some CreateSlot"
| "outcome_slot (UpdateSuccess _) = Some UpdateSlot"
| "outcome_slot (UpdateFailure _) = Some UpdateSlot"
| "outcome_slot (RemoveSuccess _) = Some RemoveSlot"
| "outcome_slot (RemoveFailure _) = Some RemoveSlot"
| "outcome_slot _ = None"

text \<open>The requests of one slot submitted in a log of actions, and the number of answers.\<close>

definition slot_cmds :: "slot \<Rightarrow> action list \<Rightarrow> request list" where
  "slot_cmds sl xs = filter (\<lambda>r. slot_of r = sl) (List.map_filter request_of xs)"

definition slot_answers :: "slot \<Rightarrow> action list \<Rightarrow> nat" where
  "slot_answers sl xs = length (filter (\<lambda>a. outcome_slot a = Some sl) xs)"

text \<open>The error payload of a failure action.\<close>

fun answer_failure :: "action \<Rightarrow> failure option" where
  "answer_failure (LoadAllFailure f) = Some f"
| "answer_failure (LoadFailure f) = Some f"
| "answer_failure (CreateFailure f) = Some f"
| "answer_failure (UpdateFailure f) = Some f"
| "answer_failure (RemoveFailure f) = Some f"
| "answer_failure _ = None"

text \<open>The todos an answer action delivers to the store.\<close>

fun answer_todos :: "action \<Rightarrow> todo list" where
  "answer_todos (LoadAllSuccess ts) = ts"
| "answer_todos (LoadSuccess t) = [t]"
| "answer_todos (CreateSuccess t) = [t]"
| "answer_todos (UpdateSuccess t) = [t]"
| "answer_todos _ = []"

section \<open>Lemmas\<close>

lemmas data_effect_defs [effect_simps] =
  loadAll_effect_def load_effect_def create_effect_def update_effect_def remove_effect_def
  data_effects_def

lemmas respond_defs [effect_simps] =
  respond_def respond_loadAll_def respond_load_def respond_create_def respond_update_def
  respond_remove_def

lemma data_effects_answer [simp]: "outcome_slot a \<noteq> None \<Longrightarrow> data_effects a q = q"
  by (cases a) (simp_all add: data_effect_defs)

lemma dialog_effects_data_answer [simp]:
  "outcome_slot a = Some LoadAllSlot \<Longrightarrow> dialog_effects a d = d"
  "outcome_slot a = Some LoadSlot \<Longrightarrow> dialog_effects a d = d"
  by (cases a; simp add: dialog_effects_def dialog_effect_defs)+

lemma outcome_slot_answers [simp]:
  "outcome_slot (loadAll_answer res) = Some LoadAllSlot"
  "outcome_slot (load_answer res') = Some LoadSlot"
  "outcome_slot (create_answer res') = Some CreateSlot"
  "outcome_slot (update_answer res') = Some UpdateSlot"
  "outcome_slot (remove_answer i res'') = Some RemoveSlot"
  by (simp_all add: loadAll_answer_def load_answer_def create_answer_def update_answer_def
      remove_answer_def split: outcome.splits)

lemma complete_fields [simp]:
  "outcome_slot a \<noteq> None \<Longrightarrow> rx (complete tr req r' a s) = rx s"
  "store_log (complete tr req r' a s) = store_log s @ [a]"
  "server_log (complete tr req r' a s) = server_log s @ served tr req"
  "server (complete tr req r' a s) = r'"
  "ui (complete tr req r' a s) = dialog_effects a (ui s)"
  by (simp_all add: complete_def dispatch_def)

lemma dispatch_fields [simp]:
  "rx (dispatch a s) = data_effects a (rx s)"
  "store_log (dispatch a s) = store_log s @ [a]"
  "server_log (dispatch a s) = server_log s"
  "server (dispatch a s) = server s"
  "ui (dispatch a s) = dialog_effects a (ui s)"
  by (simp_all add: dispatch_def)

lemma slot_cmds_append [simp]: "slot_cmds sl (xs @ ys) = slot_cmds sl xs @ slot_cmds sl ys"
  by (simp add: slot_cmds_def List.map_filter_def)

lemma slot_answers_append [simp]: "slot_answers sl (xs @ ys) = slot_answers sl xs + slot_answers sl ys"
  by (simp add: slot_answers_def)

lemma slot_cmds_answer [simp]: "outcome_slot a \<noteq> None \<Longrightarrow> slot_cmds sl [a] = []"
  by (cases a) (simp_all add: slot_cmds_def List.map_filter_def)

lemma slot_answers_single [simp]: "slot_answers sl [a] = (if outcome_slot a = Some sl then 1 else 0)"
  by (simp add: slot_answers_def)

text \<open>
  Refinement of the RxJS operators by queues: on a command, \<open>concatMap\<close> appends
  the request to the slot's pending list, and \<open>switchMap\<close> replaces it.
\<close>

lemma pending_data_effects:
  "sl \<noteq> LoadAllSlot \<Longrightarrow> pending sl (data_effects a q) = pending sl q @ slot_cmds sl [a]"
  by (cases a; cases sl) (simp_all add: data_effect_defs pending_def slot_cmds_def List.map_filter_def)

lemma pending_loadAll_data_effects:
  "pending LoadAllSlot (data_effects a q) =
     (case slot_cmds LoadAllSlot [a] of [] \<Rightarrow> pending LoadAllSlot q | r # _ \<Rightarrow> [r])"
  by (cases a) (simp_all add: data_effect_defs pending_def slot_cmds_def List.map_filter_def)

lemma slot_cmds_single_length: "length (slot_cmds sl [a]) \<le> 1"
  by (cases a) (simp_all add: slot_cmds_def List.map_filter_def)

text \<open>
  A response exists exactly when the slot has a pending request; it serves the head,
  leaves the other slots alone and dispatches one answer of the slot.
\<close>

lemma respond_None_iff: "respond sl tr s = None \<longleftrightarrow> pending sl (rx s) = []"
  by (cases sl)
     (auto simp: respond_defs pending_def Let_def split: option.splits list.splits prod.splits)

lemma respond_load_Some:
  "respond_load tr s = Some s' \<Longrightarrow>
   \<exists>i rest a. load_queue (rx s) = i # rest \<and>
     rx s' = (rx s)\<lparr>load_queue := rest\<rparr> \<and>
     outcome_slot a = Some LoadSlot \<and> store_log s' = store_log s @ [a] \<and>
     server_log s' = server_log s @ served tr (ReqLoad i) \<and> ui s' = dialog_effects a (ui s)"
  by (auto simp: respond_load_def complete_def dispatch_def Let_def split: list.splits prod.splits)

lemma respond_create_Some:
  "respond_create tr s = Some s' \<Longrightarrow>
   \<exists>t rest a. create_queue (rx s) = t # rest \<and>
     rx s' = (rx s)\<lparr>create_queue := rest\<rparr> \<and>
     outcome_slot a = Some CreateSlot \<and> store_log s' = store_log s @ [a] \<and>
     server_log s' = server_log s @ served tr (ReqCreate t) \<and> ui s' = dialog_effects a (ui s)"
  by (auto simp: respond_create_def complete_def dispatch_def Let_def split: list.splits prod.splits)

lemma respond_update_Some:
  "respond_update tr s = Some s' \<Longrightarrow>
   \<exists>i p rest a. update_queue (rx s) = (i, p) # rest \<and>
     rx s' = (rx s)\<lparr>update_queue := rest\<rparr> \<and>
     outcome_slot a = Some UpdateSlot \<and> store_log s' = store_log s @ [a] \<and>
     server_log s' = server_log s @ served tr (ReqUpdate i p) \<and> ui s' = dialog_effects a (ui s)"
  by (auto simp: respond_update_def complete_def dispatch_def Let_def split: list.splits prod.splits)

lemma respond_remove_Some:
  "respond_remove tr s = Some s' \<Longrightarrow>
   \<exists>i rest a. remove_queue (rx s) = i # rest \<and>
     rx s' = (rx s)\<lparr>remove_queue := rest\<rparr> \<and>
     outcome_slot a = Some RemoveSlot \<and> store_log s' = store_log s @ [a] \<and>
     server_log s' = server_log s @ served tr (ReqRemove i) \<and> ui s' = dialog_effects a (ui s)"
  by (auto simp: respond_remove_def complete_def dispatch_def Let_def split: list.splits prod.splits)

lemma respond_loadAll_Some:
  "respond_loadAll tr s = Some s' \<Longrightarrow>
   \<exists>off lim a. loadAll_inflight (rx s) = Some (off, lim) \<and>
     rx s' = (rx s)\<lparr>loadAll_inflight := None\<rparr> \<and>
     outcome_slot a = Some LoadAllSlot \<and> store_log s' = store_log s @ [a] \<and>
     server_log s' = server_log s @ served tr (ReqLoadAll off lim) \<and> ui s' = dialog_effects a (ui s)"
  by (auto simp: respond_loadAll_def complete_def dispatch_def Let_def split: option.splits prod.splits)

lemma respond_Some:
  assumes "respond sl tr s = Some s'"
  shows "\<exists>r a. pending sl (rx s) = r # pending sl (rx s') \<and> slot_of r = sl \<and>
           (\<forall>sl'. sl' \<noteq> sl \<longrightarrow> pending sl' (rx s') = pending sl' (rx s)) \<and>
           outcome_slot a = Some sl \<and> store_log s' = store_log s @ [a] \<and>
           server_log s' = server_log s @ served tr r \<and> ui s' = dialog_effects a (ui s)"
proof (cases sl)
  case LoadAllSlot
  with assms show ?thesis
    by (auto simp: respond_def pending_def dest!: respond_loadAll_Some split: slot.splits)
next
  case LoadSlot
  with assms show ?thesis
    by (auto simp: respond_def pending_def dest!: respond_load_Some split: slot.splits)
next
  case CreateSlot
  with assms show ?thesis
    by (auto simp: respond_def pending_def dest!: respond_create_Some split: slot.splits)
next
  case UpdateSlot
  with assms show ?thesis
    by (auto simp: respond_def pending_def dest!: respond_update_Some split: slot.splits)
next
  case RemoveSlot
  with assms show ?thesis
    by (auto simp: respond_def pending_def dest!: respond_remove_Some split: slot.splits)
qed

lemma respond_update_Delivered:
  assumes "update_queue (rx s) = (i, p) # rest"
  shows "\<exists>s'. respond UpdateSlot Delivered s = Some s' \<and>
           server s' = snd (service_update i p (server s)) \<and> update_queue (rx s') = rest \<and>
           server_log s' = server_log s @ [ReqUpdate i p] \<and>
           store_log s' = store_log s @ [update_answer (fst (service_update i p (server s)))]"
  using assms by (simp add: respond_def respond_update_def split_def served_def Let_def)

lemma respond_loadAll_answer:
  assumes "loadAll_inflight (rx s) = Some (off, lim)"
  shows "\<exists>s'. respond LoadAllSlot tr s = Some s' \<and>
           server s' = snd (over_http tr (service_loadAll off lim) (server s)) \<and>
           loadAll_inflight (rx s') = None \<and>
           server_log s' = server_log s @ served tr (ReqLoadAll off lim) \<and>
           store_log s' = store_log s @ [loadAll_answer (fst (over_http tr (service_loadAll off lim) (server s)))]"
  using assms by (simp add: respond_def respond_loadAll_def split_def Let_def)
lemma answer_todos_answers [simp]:
  "answer_todos (loadAll_answer res) = (case res of Success ts \<Rightarrow> ts | Failure _ _ \<Rightarrow> [])"
  "answer_todos (load_answer res') = (case res' of Success t \<Rightarrow> [t] | Failure _ _ \<Rightarrow> [])"
  "answer_todos (create_answer res') = (case res' of Success t \<Rightarrow> [t] | Failure _ _ \<Rightarrow> [])"
  "answer_todos (update_answer res') = (case res' of Success t \<Rightarrow> [t] | Failure _ _ \<Rightarrow> [])"
  "answer_todos (remove_answer i res'') = []"
  by (simp_all add: loadAll_answer_def load_answer_def create_answer_def update_answer_def
      remove_answer_def split: outcome.splits)

lemma over_http_stored:
  assumes "\<And>x r'. call r = (Success x, r') \<Longrightarrow> set (f x) \<subseteq> set (todos r')"
  shows "set (case fst (over_http tr call r) of Success x \<Rightarrow> f x | Failure _ _ \<Rightarrow> [])
           \<subseteq> set (todos (snd (over_http tr call r)))"
  using assms by (cases "over_http tr call r") (auto dest: over_http_Success split: outcome.splits)

text \<open>Every todo an answer delivers is in the server's store after the call.\<close>

lemma respond_answer_stored:
  assumes "respond sl tr s = Some s'"
  shows "\<exists>a. store_log s' = store_log s @ [a] \<and> set (answer_todos a) \<subseteq> set (todos (server s'))"
proof (cases sl)
  case LoadAllSlot
  with assms obtain off lim where q: "loadAll_inflight (rx s) = Some (off, lim)"
    by (auto simp: respond_defs split: option.splits)
  let ?c = "over_http tr (service_loadAll off lim) (server s)"
  have "set (answer_todos (loadAll_answer (fst ?c))) \<subseteq> set (todos (snd ?c))"
    using over_http_stored [where f = "\<lambda>ts. ts"] service_results_stored(4) by simp
  with assms LoadAllSlot q show ?thesis
    by (auto simp: respond_defs split_def Let_def)
next
  case LoadSlot
  with assms show ?thesis
    by (auto simp: respond_defs split_def Let_def split: list.splits
        intro!: over_http_stored [where f = "\<lambda>t. [t]", simplified] dest: service_results_stored)
next
  case CreateSlot
  with assms show ?thesis
    by (auto simp: respond_defs split_def Let_def split: list.splits
        intro!: over_http_stored [where f = "\<lambda>t. [t]", simplified] dest: service_results_stored)
next
  case UpdateSlot
  with assms show ?thesis
    by (auto simp: respond_defs split_def Let_def split: list.splits
        intro!: over_http_stored [where f = "\<lambda>t. [t]", simplified] dest: service_results_stored)
next
  case RemoveSlot
  with assms show ?thesis
    by (auto simp: respond_defs split_def Let_def split: list.splits)
qed

lemma respond_create_Delivered:
  assumes "create_queue (rx s) = t # rest"
  shows "respond CreateSlot Delivered s =
           Some (complete Delivered (ReqCreate t) (snd (service_create t (server s)))
             (create_answer (fst (service_create t (server s))))
             (s\<lparr>rx := (rx s)\<lparr>create_queue := rest\<rparr>\<rparr>))"
  using assms by (simp add: respond_def respond_create_def split_def Let_def)

lemma respond_update_Delivered_eq:
  assumes "update_queue (rx s) = (i, p) # rest"
  shows "respond UpdateSlot Delivered s =
           Some (complete Delivered (ReqUpdate i p) (snd (service_update i p (server s)))
             (update_answer (fst (service_update i p (server s))))
             (s\<lparr>rx := (rx s)\<lparr>update_queue := rest\<rparr>\<rparr>))"
  using assms by (simp add: respond_def respond_update_def split_def Let_def)

lemma respond_remove_Delivered_eq:
  assumes "remove_queue (rx s) = i # rest"
  shows "respond RemoveSlot Delivered s =
           Some (complete Delivered (ReqRemove i) (snd (service_remove i (server s)))
             (remove_answer i (fst (service_remove i (server s))))
             (s\<lparr>rx := (rx s)\<lparr>remove_queue := rest\<rparr>\<rparr>))"
  using assms by (simp add: respond_def respond_remove_def split_def Let_def)

lemma respond_load_eq:
  assumes "load_queue (rx s) = i # rest"
  shows "respond LoadSlot tr s =
           Some (complete tr (ReqLoad i) (snd (over_http tr (service_load i) (server s)))
             (load_answer (fst (over_http tr (service_load i) (server s))))
             (s\<lparr>rx := (rx s)\<lparr>load_queue := rest\<rparr>\<rparr>))"
  using assms by (simp add: respond_def respond_load_def split_def Let_def)

end
