(* ===== verification/Todo_Runtime.thy ===== *)
theory Todo_Runtime
  imports Todo_Effects
begin

text \<open>
  The running application as a state machine. An event is a component dispatching a
  command to the store, the inner observable of one effect emitting its answer, with
  the transport outcome the network chose, or the user closing an open dialog. Which slot answers next is
  not determined, so the transitions form a relation; \<open>app_step\<close> is the same
  relation as an executable function, and \<open>run\<close> runs a list of events. The
  invariants of reachable states: the server's store stays well formed, every dialog
  reference names a dialog of its kind, the effect error handler's counters match the
  errors it reported, every todo delivered to the store is well formed, each
  \<open>concatMap\<close> slot is a FIFO queue of
  exactly the submitted and not yet answered requests, and the \<open>switchMap\<close> slot
  holds at most the latest submitted request. \<open>drain\<close> answers one slot until it is
  idle, and \<open>run_respond_all\<close> answers it once per pending request with any transports.
\<close>

section \<open>Events and transitions\<close>

datatype event = Dispatch action | Respond slot transport | Dismiss nat

inductive app_trans :: "app_state \<Rightarrow> event \<Rightarrow> app_state \<Rightarrow> bool" where
  command: "is_command a \<Longrightarrow> app_trans s (Dispatch a) (dispatch a s)"
| answer: "respond sl tr s = Some s' \<Longrightarrow> app_trans s (Respond sl tr) s'"
| dismiss: "mat_dismiss r (ui s) = Some d \<Longrightarrow> app_trans s (Dismiss r) (s\<lparr>ui := d\<rparr>)"

inductive_cases app_trans_DispatchE: "app_trans s (Dispatch a) s'"
inductive_cases app_trans_RespondE: "app_trans s (Respond sl tr) s'"
inductive_cases app_trans_DismissE: "app_trans s (Dismiss r) s'"

fun app_step :: "event \<Rightarrow> app_state \<Rightarrow> app_state option" where
  "app_step (Dispatch a) s = (if is_command a then Some (dispatch a s) else None)"
| "app_step (Respond sl tr) s = respond sl tr s"
| "app_step (Dismiss r) s = map_option (\<lambda>d. s\<lparr>ui := d\<rparr>) (mat_dismiss r (ui s))"

fun run :: "event list \<Rightarrow> app_state \<Rightarrow> app_state option" where
  "run [] s = Some s"
| "run (e # es) s = (case app_step e s of None \<Rightarrow> None | Some s' \<Rightarrow> run es s')"

inductive reachable :: "app_state \<Rightarrow> bool" where
  init: "reachable app_init"
| step: "reachable s \<Longrightarrow> app_trans s e s' \<Longrightarrow> reachable s'"

section \<open>Invariants\<close>

definition fifo_inv :: "slot \<Rightarrow> app_state \<Rightarrow> bool" where
  "fifo_inv sl s \<longleftrightarrow>
     slot_answers sl (store_log s) \<le> length (slot_cmds sl (store_log s)) \<and>
     pending sl (rx s) = drop (slot_answers sl (store_log s)) (slot_cmds sl (store_log s))"

definition switch_inv :: "app_state \<Rightarrow> bool" where
  "switch_inv s \<longleftrightarrow>
     slot_answers LoadAllSlot (store_log s) + length (pending LoadAllSlot (rx s))
       \<le> length (slot_cmds LoadAllSlot (store_log s)) \<and>
     (pending LoadAllSlot (rx s) = [] \<or>
      pending LoadAllSlot (rx s) = [last (slot_cmds LoadAllSlot (store_log s))])"

text \<open>Every todo the effects delivered to the store is a well-formed todo of the contract.\<close>

definition log_typed :: "app_state \<Rightarrow> bool" where
  "log_typed s \<longleftrightarrow> (\<forall>a\<in>set (store_log s). \<forall>t\<in>set (answer_todos a). todo_ok t)"

definition app_inv :: "app_state \<Rightarrow> bool" where
  "app_inv s \<longleftrightarrow>
     repo_wf (server s) \<and> titles_trimmed (server s) \<and> dialogs_wf (ui s) \<and> handler_wf (ui s) \<and> log_typed s \<and> switch_inv s \<and>
     (\<forall>sl. sl \<noteq> LoadAllSlot \<longrightarrow> fifo_inv sl s)"

section \<open>Draining a slot\<close>

text \<open>
  The event loop answering one slot until it is idle, every call delivered. It
  terminates because each answer removes the head of the slot's pending requests.
\<close>

function drain :: "slot \<Rightarrow> app_state \<Rightarrow> app_state" where
  "drain sl s = (case respond sl Delivered s of None \<Rightarrow> s | Some s' \<Rightarrow> drain sl s')"
  by pat_completeness auto

termination
  by (relation "measure (\<lambda>(sl, s). length (pending sl (rx s)))") (auto dest!: respond_Some)

section \<open>Lemmas\<close>

lemma app_trans_iff_step: "app_trans s e s' \<longleftrightarrow> app_step e s = Some s'"
  by (cases e) (auto intro: app_trans.intros elim: app_trans_DispatchE app_trans_RespondE app_trans_DismissE)

lemma run_append:
  "run (xs @ ys) s = (case run xs s of None \<Rightarrow> None | Some s' \<Rightarrow> run ys s')"
  by (induction xs arbitrary: s) (auto split: option.splits)

lemma reachable_run: "reachable s \<Longrightarrow> run es s = Some s' \<Longrightarrow> reachable s'"
proof (induction es arbitrary: s)
  case Nil
  then show ?case by simp
next
  case (Cons e es)
  then obtain t where t: "app_step e s = Some t" and r: "run es t = Some s'"
    by (auto split: option.splits)
  from Cons.prems(1) t have "reachable t"
    by (auto intro: reachable.step simp: app_trans_iff_step)
  then show ?case using r by (rule Cons.IH)
qed

lemma reachable_run_init: "run es app_init \<noteq> None \<Longrightarrow> reachable (the (run es app_init))"
  using reachable_run [OF reachable.init] by fastforce

lemma command_no_answer [simp]: "is_command a \<Longrightarrow> outcome_slot a = None"
  by (cases a) simp_all

lemma app_inv_init [intro]: "app_inv app_init"
  by (simp add: app_inv_def fifo_inv_def switch_inv_def log_typed_def app_init_def rx_init_def pending_def
      repo_wf_init dialogs_wf_init handler_wf_init titles_trimmed_init
      slot_answers_def slot_cmds_def split: slot.splits)

lemma fifo_inv_dispatch:
  assumes "fifo_inv sl s" "sl \<noteq> LoadAllSlot" "is_command a"
  shows "fifo_inv sl (dispatch a s)"
  using assms by (simp add: fifo_inv_def pending_data_effects)

lemma fifo_inv_respond:
  assumes inv: "fifo_inv sl s" and sl: "sl \<noteq> LoadAllSlot" and r: "respond sl' tr s = Some s'"
  shows "fifo_inv sl s'"
proof -
  obtain q a where q: "pending sl' (rx s) = q # pending sl' (rx s')"
    and other: "\<forall>x. x \<noteq> sl' \<longrightarrow> pending x (rx s') = pending x (rx s)"
    and a: "outcome_slot a = Some sl'" and log: "store_log s' = store_log s @ [a]"
    using respond_Some [OF r] by blast
  show ?thesis
  proof (cases "sl' = sl")
    case True
    let ?n = "slot_answers sl (store_log s)" and ?c = "slot_cmds sl (store_log s)"
    from inv q True have d: "drop ?n ?c = q # pending sl (rx s')" by (simp add: fifo_inv_def)
    then have "?n < length ?c" by (metis drop_eq_Nil2 leI list.distinct(1))
    moreover from d have "drop (Suc ?n) ?c = pending sl (rx s')"
      by (metis drop_Suc list.sel(3) tl_drop)
    ultimately show ?thesis using a log True by (simp add: fifo_inv_def)
  next
    case False
    with inv other a log show ?thesis by (simp add: fifo_inv_def)
  qed
qed

lemma switch_inv_dispatch:
  assumes "switch_inv s" "is_command a"
  shows "switch_inv (dispatch a s)"
  using assms
  by (cases a) (auto simp: switch_inv_def pending_loadAll_data_effects slot_cmds_def
      List.map_filter_def)

lemma switch_inv_respond:
  assumes inv: "switch_inv s" and r: "respond sl tr s = Some s'"
  shows "switch_inv s'"
proof -
  obtain q a where q: "pending sl (rx s) = q # pending sl (rx s')"
    and other: "\<forall>x. x \<noteq> sl \<longrightarrow> pending x (rx s') = pending x (rx s)"
    and a: "outcome_slot a = Some sl" and log: "store_log s' = store_log s @ [a]"
    using respond_Some [OF r] by blast
  show ?thesis
  proof (cases "sl = LoadAllSlot")
    case True
    with inv q have "pending LoadAllSlot (rx s') = []" by (auto simp: switch_inv_def)
    with inv q True a log show ?thesis by (auto simp: switch_inv_def)
  next
    case False
    with inv other a log show ?thesis by (simp add: switch_inv_def)
  qed
qed

lemma respond_server_wf:
  assumes "repo_wf (server s)" "respond sl tr s = Some s'"
  shows "repo_wf (server s')"
  using assms
  by (cases sl)
     (auto simp: respond_defs Let_def split_def service_loadAll_def service_load_def
        split: option.splits list.splits
        intro!: over_http_wf service_create_wf service_update_wf service_remove_wf)

lemma command_no_todos [simp]: "is_command a \<Longrightarrow> answer_todos a = []"
  by (cases a) simp_all

lemma log_typed_dispatch: "log_typed s \<Longrightarrow> is_command a \<Longrightarrow> log_typed (dispatch a s)"
  by (simp add: log_typed_def)

lemma log_typed_respond:
  assumes "log_typed s" "repo_wf (server s)" "respond sl tr s = Some s'"
  shows "log_typed s'"
proof -
  obtain a where log: "store_log s' = store_log s @ [a]"
    and a: "set (answer_todos a) \<subseteq> set (todos (server s'))"
    using respond_answer_stored [OF assms(3)] by blast
  have "repo_wf (server s')" using respond_server_wf [OF assms(2,3)] .
  with a have "\<forall>t\<in>set (answer_todos a). todo_ok t" by (auto intro: repo_wf_todo_ok)
  with assms(1) log show ?thesis by (simp add: log_typed_def)
qed

lemma respond_server_trimmed:
  assumes "titles_trimmed (server s)" "respond sl tr s = Some s'"
  shows "titles_trimmed (server s')"
  using assms
  by (cases sl)
     (auto simp: respond_defs Let_def split_def service_loadAll_def service_load_def
        split: option.splits list.splits
        intro!: over_http_keeps [where P = titles_trimmed] service_ops_trimmed)

lemma app_inv_step: "app_trans s e s' \<Longrightarrow> app_inv s \<Longrightarrow> app_inv s'"
proof (induction rule: app_trans.induct)
  case (command a s)
  then show ?case
    by (auto simp: app_inv_def intro: fifo_inv_dispatch switch_inv_dispatch log_typed_dispatch)
next
  case (answer sl tr s s')
  obtain a where "ui s' = dialog_effects a (ui s)"
    using respond_Some [OF answer.hyps] by blast
  with answer show ?case
    by (auto simp: app_inv_def intro: fifo_inv_respond switch_inv_respond respond_server_wf
        respond_server_trimmed log_typed_respond)
next
  case (dismiss r s d)
  then show ?case
    by (auto simp: app_inv_def fifo_inv_def switch_inv_def log_typed_def intro: mat_dismiss_wf)
qed

lemma reachable_app_inv: "reachable s \<Longrightarrow> app_inv s"
  by (induction rule: reachable.induct) (auto intro: app_inv_step)

text \<open>Answering a slot once per pending request, with any transport outcomes.\<close>

lemma run_respond_all:
  "length trs = length (pending sl (rx s)) \<Longrightarrow>
   \<exists>s'. run (map (Respond sl) trs) s = Some s' \<and> pending sl (rx s') = [] \<and>
     slot_answers sl (store_log s') = slot_answers sl (store_log s) + length trs \<and>
     slot_cmds sl (store_log s') = slot_cmds sl (store_log s)"
proof (induction trs arbitrary: s)
  case Nil
  then show ?case by simp
next
  case (Cons tr trs)
  then obtain s1 where r: "respond sl tr s = Some s1"
    using respond_None_iff [of sl tr s] by fastforce
  from respond_Some [OF r] obtain q a where q: "pending sl (rx s) = q # pending sl (rx s1)"
    and a: "outcome_slot a = Some sl" and log: "store_log s1 = store_log s @ [a]" by blast
  from Cons.prems q have "length trs = length (pending sl (rx s1))" by simp
  from Cons.IH [OF this] obtain s' where "run (map (Respond sl) trs) s1 = Some s'"
    "pending sl (rx s') = []"
    "slot_answers sl (store_log s') = slot_answers sl (store_log s1) + length trs"
    "slot_cmds sl (store_log s') = slot_cmds sl (store_log s1)" by blast
  with r a log show ?case by simp
qed

end
