(* ===== verification/Todo_Coordinator.thy ===== *)
theory Todo_Coordinator
  imports Todo_Runtime
begin

text \<open>
  The abstract \<open>RequestCoordinator\<close> of spec section 4.3: one slot per operation
  kind, each holding its requests in order, the head one \<open>Pending\<close> and an empty slot
  \<open>Idle\<close>; a command is submitted to its slot, queued behind the current request
  (sequential dispatch) or replacing it (latest-wins dispatch, \<open>loadAll\<close> only); a
  terminal event ends the head request and emits one outcome event, with the slot and
  whether it succeeded. The effects class refines it: \<open>coord_of\<close> reads the pending
  requests of the RxJS state and the outcome events of the store's log, and every
  transition of the application is matched by a step of the coordinator.
\<close>

section \<open>The abstract coordinator\<close>

datatype dispatch_mode = Sequential | LatestWins

definition slot_mode :: "slot \<Rightarrow> dispatch_mode" where
  "slot_mode sl = (if sl = LoadAllSlot then LatestWins else Sequential)"

record coordinator =
  slot_requests :: "slot \<Rightarrow> request list"
  terminal_events :: "(slot \<times> bool) list"

definition coord_init :: coordinator where
  "coord_init = \<lparr>slot_requests = (\<lambda>_. []), terminal_events = []\<rparr>"

datatype coord_event = Submit request | Terminal slot bool | Ignore

fun coord_step :: "coord_event \<Rightarrow> coordinator \<Rightarrow> coordinator option" where
  "coord_step (Submit r) c =
     Some (c\<lparr>slot_requests := (slot_requests c)(slot_of r :=
       (case slot_mode (slot_of r) of
          LatestWins \<Rightarrow> [r]
        | Sequential \<Rightarrow> slot_requests c (slot_of r) @ [r]))\<rparr>)"
| "coord_step (Terminal sl ok) c =
     (case slot_requests c sl of
        [] \<Rightarrow> None
      | _ # rest \<Rightarrow>
          Some (c\<lparr>slot_requests := (slot_requests c)(sl := rest),
                  terminal_events := terminal_events c @ [(sl, ok)]\<rparr>))"
| "coord_step Ignore c = Some c"

fun coord_run :: "coord_event list \<Rightarrow> coordinator \<Rightarrow> coordinator option" where
  "coord_run [] c = Some c"
| "coord_run (ce # ces) c = (case coord_step ce c of None \<Rightarrow> None | Some c' \<Rightarrow> coord_run ces c')"

inductive coord_reach :: "coordinator \<Rightarrow> bool" where
  init: "coord_reach coord_init"
| step: "coord_reach c \<Longrightarrow> coord_step ce c = Some c' \<Longrightarrow> coord_reach c'"

section \<open>Abstraction of the effects class\<close>

text \<open>The outcome event of an answer action: its slot, and success or failure.\<close>

definition terminal_of :: "action \<Rightarrow> (slot \<times> bool) option" where
  "terminal_of a = map_option (\<lambda>sl. (sl, answer_failure a = None)) (outcome_slot a)"

definition coord_of :: "app_state \<Rightarrow> coordinator" where
  "coord_of s =
     \<lparr>slot_requests = (\<lambda>sl. pending sl (rx s)),
      terminal_events = List.map_filter terminal_of (store_log s)\<rparr>"

text \<open>Which coordinator events an application event may be matched with.\<close>

fun coord_matches :: "event \<Rightarrow> coord_event \<Rightarrow> bool" where
  "coord_matches (Dispatch a) ce = (ce = (case request_of a of Some r \<Rightarrow> Submit r | None \<Rightarrow> Ignore))"
| "coord_matches (Respond sl _) ce = (\<exists>ok. ce = Terminal sl ok)"
| "coord_matches (Dismiss _) ce = (ce = Ignore)"

section \<open>Lemmas\<close>

lemma slot_cmds_single:
  "slot_cmds sl [a] = (case request_of a of None \<Rightarrow> [] | Some r \<Rightarrow> if slot_of r = sl then [r] else [])"
  by (simp add: slot_cmds_def List.map_filter_def split: option.splits)

lemma pending_submit:
  assumes "request_of a = Some r"
  shows "(\<lambda>sl. pending sl (data_effects a q)) =
           (\<lambda>sl. pending sl q)(slot_of r :=
             (case slot_mode (slot_of r) of LatestWins \<Rightarrow> [r] | Sequential \<Rightarrow> pending (slot_of r) q @ [r]))"
proof
  fix sl
  show "pending sl (data_effects a q) =
      ((\<lambda>sl. pending sl q)(slot_of r :=
        (case slot_mode (slot_of r) of LatestWins \<Rightarrow> [r] | Sequential \<Rightarrow> pending (slot_of r) q @ [r]))) sl"
  proof (cases "sl = LoadAllSlot")
    case True
    with assms show ?thesis
      by (auto simp: pending_loadAll_data_effects slot_cmds_single slot_mode_def)
  next
    case False
    with assms show ?thesis
      by (auto simp: pending_data_effects slot_cmds_single slot_mode_def)
  qed
qed

lemma pending_ignore:
  "request_of a = None \<Longrightarrow> pending sl (data_effects a q) = pending sl q"
  by (cases "sl = LoadAllSlot") (simp_all add: pending_data_effects pending_loadAll_data_effects slot_cmds_single)

lemma coord_of_init [simp]: "coord_of app_init = coord_init"
  by (simp add: coord_of_def coord_init_def app_init_def rx_init_def pending_def fun_eq_iff
      List.map_filter_def split: slot.splits)

lemma terminal_of_command [simp]: "is_command a \<Longrightarrow> terminal_of a = None"
  by (simp add: terminal_of_def)

text \<open>The simulation square: each transition is matched by one coordinator step.\<close>

lemma coord_simulation:
  assumes "app_trans s e s'"
  shows "\<exists>ce. coord_matches e ce \<and> coord_step ce (coord_of s) = Some (coord_of s')"
  using assms
proof (induction rule: app_trans.induct)
  case (command a s)
  show ?case
  proof (cases "request_of a")
    case None
    with command show ?thesis
      by (simp add: coord_of_def pending_ignore List.map_filter_def)
  next
    case (Some r)
    with command show ?thesis
      by (simp add: coord_of_def pending_submit List.map_filter_def split: dispatch_mode.split)
  qed
next
  case (answer sl tr s s')
  from respond_Some [OF answer] obtain q a where
    q: "pending sl (rx s) = q # pending sl (rx s')"
    and other: "\<forall>x. x \<noteq> sl \<longrightarrow> pending x (rx s') = pending x (rx s)"
    and a: "outcome_slot a = Some sl" and log: "store_log s' = store_log s @ [a]" by blast
  have "(\<lambda>x. pending x (rx s'))= (\<lambda>x. pending x (rx s))(sl := pending sl (rx s'))"
    using other by (auto simp: fun_eq_iff)
  with q a log have "coord_step (Terminal sl (answer_failure a = None)) (coord_of s) = Some (coord_of s')"
    by (simp add: coord_of_def terminal_of_def List.map_filter_def)
  then show ?case by auto
next
  case (dismiss r s d)
  show ?case by (simp add: coord_of_def)
qed

lemma coord_run_reach: "coord_reach c \<Longrightarrow> coord_run ces c = Some c' \<Longrightarrow> coord_reach c'"
  by (induction ces arbitrary: c) (auto intro: coord_reach.step split: option.splits)

end
