(* ===== verification/Spec2Isabelle.thy ===== *)
theory Spec2Isabelle
  imports Todo_Coordinator
begin

text \<open>
  \<^bold>\<open>A verification model of the ngrx-todo effects.\<close>

  The repository's code under \<open>src/\<close> is one class, \<open>TodoEffects\<close> in
  \<open>src/src/app/todo/store/effects/todo.effect.ts\<close>: eleven NgRx effects that turn
  store actions into calls of \<open>TodoService\<close> and into \<open>MatDialog\<close> openings and
  closings. Five effects dispatch: \<open>loadAll$\<close> (\<open>switchMap\<close>) and \<open>load$\<close>,
  \<open>create$\<close>, \<open>update$\<close>, \<open>remove$\<close> (\<open>concatMap\<close>) call the service and map
  its result to a success action, or with \<open>catchError\<close> to a failure action. Six do
  not: \<open>show*Dialog$\<close> open a dialog and store its reference in a field,
  \<open>hide*Dialog$\<close> close the stored reference on \<open>createSuccess\<close>,
  \<open>updateSuccess\<close>, \<open>removeSuccess\<close>. The service, its backend and the action
  creators are outside \<open>src/\<close>; they are modelled from the spec (sections 3, 4.1,
  4.2, 6).

  \<^bold>\<open>Theories.\<close>
  \<^item> \<open>Todo_Prelude\<close>: lemma collections, decimal rendering of identifiers (and
    its injectivity, through \<open>parse_decimal\<close>), generic list lemmas.
  \<^item> \<open>Todo_Repository\<close> (spec): \<open>todo\<close> record, \<open>outcome\<close> (Success/Failure
    with an error kind), the store and \<open>repo_create/find/findAll/update/remove\<close>, and
    its invariant \<open>repo_wf\<close>, kept by every operation.
  \<^item> \<open>Todo_Service\<close> (spec): title trimming, the five \<open>service_*\<close> calls and
    \<open>over_http\<close>, a call delivered or answered with an HTTP error status.
  \<^item> \<open>Todo_Actions\<close> (spec): the \<open>action\<close> datatype of \<open>TodoActions\<close>.
  \<^item> \<open>Todo_Dialogs\<close> (code, lines 20--22 and 90--161): \<open>MatDialog\<close> as a list of
    opened dialogs with the user's dismissal \<open>mat_dismiss\<close>, the reference fields
    (\<open>None\<close> is \<open>undefined\<close>), NgRx's
    \<open>defaultEffectsErrorHandler\<close> (\<open>effect_error\<close>, \<open>run_tap\<close>: report and
    resubscribe at most \<open>MAX_NUMBER_OF_RETRY_ATTEMPTS\<close> times), the six dialog effects
    and \<open>dialog_effects\<close> running them in declaration order; the invariants
    \<open>dialogs_wf\<close> and \<open>handler_wf\<close>, and the lemma that the six effects commute.
  \<^item> \<open>Todo_Effects\<close> (code, lines 30--88): the RxJS state of the five dispatching
    effects (\<open>effects_state\<close>: the switchMap request in flight and four concatMap
    queues), \<open>dispatch\<close> (store logs the action, every effect sees it), the
    answer functions (\<open>map\<close>/\<open>catchError\<close>) and \<open>respond\<close>, the inner
    observable of a slot emitting.
  \<^item> \<open>Todo_Runtime\<close>: events (a command, an answer, a dialog dismissed by the
    user), the inductive transition relation \<open>app_trans\<close>,
    its executable twin \<open>app_step\<close> and \<open>run\<close>, \<open>reachable\<close>, and the
    invariant \<open>app_inv\<close> proved for all reachable states by rule induction;
    \<open>drain\<close>, the event loop answering one slot until it is idle (a \<open>function\<close>
    whose termination measure is the number of pending requests).
  \<^item> \<open>Todo_Coordinator\<close> (spec 4.3): the abstract \<open>RequestCoordinator\<close> (per-slot
    request queues, sequential or latest-wins dispatch, one outcome event per terminal
    transition), the abstraction \<open>coord_of\<close> and the simulation lemma.
  \<^item> this theory: the properties of the whole program, each with a witness.

  \<^bold>\<open>Modelling choices.\<close> The asynchrony of the program is the choice of the next
  event: any component may dispatch a command, any slot with a pending request may
  answer, with any transport outcome, and the user may close any open dialog. Server processing and the delivery of its answer
  are one event, which is exact for one request in flight per slot. A cancelled
  \<open>switchMap\<close> request is never answered (its subscription is gone). An error thrown
  inside a non-dispatching effect goes through NgRx's default error handler: the first ten
  are recorded in \<open>reported\<close> and the effect is resubscribed, the eleventh is
  recorded in \<open>uncaught\<close> and the effect ends (\<open>Stopped\<close>). This is NgRx 9 and
  later; the NgRx version is not part of \<open>src/\<close>. The model is faithful up to such
  an escape only: NgRx then ends the merged stream of the whole \<open>TodoEffects\<close>
  instance (a \<open>dispatch: false\<close> effect's error is not materialized), whereas the
  model ends only the hide effect and lets the others run on. An escape needs eleven
  TypeErrors of one hide effect; the properties about reachable states also range over
  the states after one, and there they describe the model rather than NgRx 9.
  Resubscription changes the order in which the effects see actions; C19 shows that
  the order does not matter, so the model keeps the declaration order. No fuel is needed: every operation
  is a total function, \<open>drain\<close> terminates by its measure, and every other loop of the
  program is the event sequence. The bound 10 is NgRx's \<open>MAX_NUMBER_OF_RETRY_ATTEMPTS\<close>.
  The commands carry what the spec's service takes: \<open>create\<close> a title and
  \<open>update\<close> an id with a patch, where lines 57 and 69 pass the action's \<open>todo\<close>
  object on to the service.

  \<^bold>\<open>Properties (this theory).\<close>
  \<^item> RxJS scheduling (C1--C5): each \<open>concatMap\<close> effect is a FIFO queue of exactly the
    submitted, unanswered requests and serves them in submission order; \<open>loadAll$\<close>
    serves only the latest \<open>loadAll\<close>, a superseded request is never answered; every
    pending request can be answered and yields exactly one answer action.
  \<^item> Error paths (C6, C10, C11, C17, C26, C30): HTTP statuses map to failure actions
    without touching the store; absent ids give \<open>NotFound\<close>; closing an undefined
    dialog reference raises a \<open>TypeError\<close> that the handler reports; blank titles of
    create and update are ValidationErrors that keep the dialog open.
  \<^item> Invariants of reachable states (C7, C8, C20, C24): the server store stays well
    formed (unique ids, ordered by \<open>createdAt\<close>, trimmed non-empty titles), dialog
    references name dialogs of their kind, every delivered todo is a stored one.
  \<^item> Functional behaviour (C9, C12--C15, C25, C27--C29): create yields a fresh,
    uncompleted todo with the trimmed title; pages respect their limit and order; two
    updates apply in order; success actions close the dialog their show opened (also
    harmlessly after the user dismissed it), failures close none; pending creates get
    consecutive ids in submission order; reads are idempotent, and \<open>load$\<close> answers
    the head of its queue without writing.
  \<^item> Divergences from the spec (C16, C18): a second \<open>showCreateDialog\<close> orphans the
    first dialog; update and remove of the same todo are not ordered with each other, so
    an earlier update can fail with NotFound.
  \<^item> Equivalence (C19): the dialog effects commute, any subscription order computes
    \<open>dialog_effects\<close>.
  \<^item> Liveness and termination (C21, C22): a reachable \<open>concatMap\<close> slot can always be
    drained, whatever the transport outcomes, leaving one answer per command; \<open>drain\<close>
    terminates and serves the queue in order.
  \<^item> Refinement (C23): every run of the application is matched by a run of the spec's
    \<open>RequestCoordinator\<close> between the abstractions of its end states.
  Every theorem with a hypothesis has a witness evaluated by \<open>code_simp\<close> or
  \<open>simp\<close> on a concrete run from \<open>app_init\<close>.

  \<^bold>\<open>Plan for further work.\<close> Transfer abstract invariants of the coordinator to the
  effects class through C23; model the end of the whole \<open>TodoEffects\<close> stream after an
  escaped error, once the NgRx version is fixed.

  \<^bold>\<open>Not modelled.\<close> Rendering and the dialog components themselves (outside
  \<open>src/\<close>, and the effects only pass them to \<open>MatDialog.open\<close>; what they can do to
  the program, dispatch any command or close their own dialog, is covered by the
  \<open>Dispatch\<close> and \<open>Dismiss\<close> events); the reducers (not in
  \<open>src/\<close>, and no effect reads the store's state); what NgRx does after an error
  escapes an effect's handler (see the modelling choices); errors thrown by \<open>MatDialog.open\<close> (the show effects are never
  resubscribed in the model); HTTP requests the server processed but whose answer was
  lost; the timing of the cancelled \<open>switchMap\<close> request at the server (a read, so
  it has no effect on the store). For these reasons the NgRx store (only its dispatch
  and action stream are used by the code), \<open>MatDialog\<close> (only \<open>open\<close>,
  \<open>close\<close> and the user's dismissal matter to it) and the effect error handler (up to
  the escape of an error) are partly modelled, and the dialog components not at all;
  every line of \<open>todo.effect.ts\<close> with behaviour is translated.
\<close>

definition patch_title_only :: "string \<Rightarrow> todo_patch" where
  "patch_title_only s = \<lparr>patch_title = Some s, patch_completed = None\<rparr>"

definition ex_fifo :: "event list" where
  "ex_fifo = [Dispatch (Create ''Buy milk''), Respond CreateSlot Delivered,
              Dispatch (Update ''t1'' (patch_title_only ''A'')), Dispatch (Update ''t1'' (patch_title_only ''B''))]"

definition ex_switch :: "event list" where
  "ex_switch = [Dispatch (LoadAll 0 10), Dispatch (LoadAll 10 10)]"

definition p_done :: todo_patch where
  "p_done = \<lparr>patch_title = None, patch_completed = Some True\<rparr>"

definition ex_create :: "event list" where
  "ex_create = [Dispatch (Create ''  Buy milk  '')]"

definition ex_page :: "event list" where
  "ex_page = [Dispatch (Create ''Buy milk''), Respond CreateSlot Delivered, Dispatch (LoadAll 0 10)]"

definition ex_created :: "event list" where
  "ex_created = [Dispatch (Create ''Buy milk''), Respond CreateSlot Delivered]"

definition ex_two_updates :: "event list" where
  "ex_two_updates = [Dispatch (Update ''t1'' (patch_title_only ''A'')), Dispatch (Update ''t1'' (patch_title_only ''B'')),
                     Respond UpdateSlot Delivered, Respond UpdateSlot Delivered]"

definition ex_reorder :: "event list" where
  "ex_reorder = [Dispatch (Create ''Buy milk''), Respond CreateSlot Delivered,
                 Dispatch (Update ''t1'' p_done), Dispatch (Remove ''t1'')]"

definition ex_create_padded :: "event list" where
  "ex_create_padded = [Dispatch (Create ''  Buy milk  ''), Respond CreateSlot Delivered]"

definition ex_three_updates :: "event list" where
  "ex_three_updates = [Dispatch (Update ''t1'' (patch_title_only ''A'')), Dispatch (Update ''t1'' (patch_title_only ''B'')),
     Dispatch (Update ''t9'' (patch_title_only ''C''))]"

fun created_from :: "nat \<Rightarrow> string list \<Rightarrow> todo list" where
  "created_from n [] = []"
| "created_from n (t # ts) =
     \<lparr>todo_id = mk_id n, title = trim t, completed = False, createdAt = n\<rparr> # created_from (Suc n) ts"

definition ex_dismissed :: "event list" where
  "ex_dismissed = [Dispatch ShowCreateDialog, Dismiss 0]"

definition ex_blank :: "event list" where
  "ex_blank = [Dispatch ShowCreateDialog, Dispatch (Create ''   '')]"

definition ex_two_creates :: "event list" where
  "ex_two_creates = [Dispatch (Create ''Buy milk''), Dispatch (Create '' Call mom'')]"

definition ex_load_page :: "event list" where
  "ex_load_page = [Dispatch (LoadAll 0 10)]"

definition ex_blank_edit :: "event list" where
  "ex_blank_edit = [Dispatch (ShowEditDialog \<lparr>todo_id = ''t1'', title = ''Buy milk'', completed = False, createdAt = 1\<rparr>),
     Dispatch (Update ''t1'' \<lparr>patch_title = Some '' '', patch_completed = None\<rparr>)]"

definition ex_load_one :: "event list" where
  "ex_load_one = [Dispatch (Load ''t1'')]"

text \<open>
  C1. Each \<open>concatMap\<close> effect (\<open>load$\<close>, \<open>create$\<close>, \<open>update$\<close>, \<open>remove$\<close>) refines a FIFO queue: in every reachable state the requests pending in its slot are exactly the requests of that kind submitted to the store, in submission order, minus as many from the front as the slot has answered.
\<close>
theorem concat_queue_fifo:
  assumes "reachable s" and "sl \<noteq> LoadAllSlot"
  shows "pending sl (rx s) = drop (slot_answers sl (store_log s)) (slot_cmds sl (store_log s))"
  using reachable_app_inv [OF assms(1)] assms(2) by (simp add: app_inv_def fifo_inv_def)

theorem concat_queue_fifo_witness:
  "reachable (the (run ex_fifo app_init)) \<and> UpdateSlot \<noteq> LoadAllSlot \<and>
   pending UpdateSlot (rx (the (run ex_fifo app_init))) =
     drop (slot_answers UpdateSlot (store_log (the (run ex_fifo app_init))))
          (slot_cmds UpdateSlot (store_log (the (run ex_fifo app_init)))) \<and>
   pending UpdateSlot (rx (the (run ex_fifo app_init))) =
     [ReqUpdate ''t1'' (patch_title_only ''A''), ReqUpdate ''t1'' (patch_title_only ''B'')]"
proof -
  have r: "reachable (the (run ex_fifo app_init))"
    by (rule reachable_run_init) code_simp
  have n: "UpdateSlot \<noteq> LoadAllSlot" by simp
  have c: "pending UpdateSlot (rx (the (run ex_fifo app_init))) =
     drop (slot_answers UpdateSlot (store_log (the (run ex_fifo app_init))))
          (slot_cmds UpdateSlot (store_log (the (run ex_fifo app_init))))"
    by (rule concat_queue_fifo [OF r n])
  have v: "pending UpdateSlot (rx (the (run ex_fifo app_init))) =
     [ReqUpdate ''t1'' (patch_title_only ''A''), ReqUpdate ''t1'' (patch_title_only ''B'')]"
    by code_simp
  from r n c v show ?thesis by blast
qed

text \<open>
  C2. A \<open>concatMap\<close> slot serves its requests in submission order: when it answers, the request the server processes is the \<open>n\<close>-th request of that kind ever submitted, where \<open>n\<close> is the number of answers the slot has already dispatched.
\<close>
theorem concat_serves_in_order:
  assumes "reachable s" and "sl \<noteq> LoadAllSlot" and "respond sl tr s = Some s'"
  shows "server_log s' =
           server_log s @ served tr (slot_cmds sl (store_log s) ! slot_answers sl (store_log s))"
proof -
  obtain r a where q: "pending sl (rx s) = r # pending sl (rx s')"
    and log: "server_log s' = server_log s @ served tr r"
    using respond_Some [OF assms(3)] by blast
  let ?n = "slot_answers sl (store_log s)" and ?c = "slot_cmds sl (store_log s)"
  have "fifo_inv sl s"
    using reachable_app_inv [OF assms(1)] assms(2) by (simp add: app_inv_def)
  then have d: "drop ?n ?c = r # pending sl (rx s')"
    using q by (simp add: fifo_inv_def)
  then have "?n < length ?c" by (metis drop_eq_Nil2 leI list.distinct(1))
  with d have "r = ?c ! ?n" by (metis hd_drop_conv_nth list.sel(1))
  with log show ?thesis by simp
qed

theorem concat_serves_in_order_witness:
  "reachable (the (run ex_fifo app_init)) \<and> UpdateSlot \<noteq> LoadAllSlot \<and>
   respond UpdateSlot Delivered (the (run ex_fifo app_init)) =
     Some (the (run (ex_fifo @ [Respond UpdateSlot Delivered]) app_init)) \<and>
   server_log (the (run (ex_fifo @ [Respond UpdateSlot Delivered]) app_init)) =
     server_log (the (run ex_fifo app_init)) @
       served Delivered (slot_cmds UpdateSlot (store_log (the (run ex_fifo app_init))) !
                         slot_answers UpdateSlot (store_log (the (run ex_fifo app_init)))) \<and>
   server_log (the (run (ex_fifo @ [Respond UpdateSlot Delivered]) app_init)) =
     [ReqCreate ''Buy milk'', ReqUpdate ''t1'' (patch_title_only ''A'')]"
proof -
  have r: "reachable (the (run ex_fifo app_init))"
    by (rule reachable_run_init) code_simp
  have n: "UpdateSlot \<noteq> LoadAllSlot" by simp
  have e: "respond UpdateSlot Delivered (the (run ex_fifo app_init)) =
     Some (the (run (ex_fifo @ [Respond UpdateSlot Delivered]) app_init))"
    by code_simp
  have c: "server_log (the (run (ex_fifo @ [Respond UpdateSlot Delivered]) app_init)) =
     server_log (the (run ex_fifo app_init)) @
       served Delivered (slot_cmds UpdateSlot (store_log (the (run ex_fifo app_init))) !
                         slot_answers UpdateSlot (store_log (the (run ex_fifo app_init))))"
    by (rule concat_serves_in_order [OF r n e])
  have v: "server_log (the (run (ex_fifo @ [Respond UpdateSlot Delivered]) app_init)) =
     [ReqCreate ''Buy milk'', ReqUpdate ''t1'' (patch_title_only ''A'')]"
    by code_simp
  from r n e c v show ?thesis by blast
qed

text \<open>
  C3. \<open>loadAll$\<close> (\<open>switchMap\<close>) is latest-wins: whenever it answers in a reachable state, the request served is the last \<open>loadAll\<close> command dispatched.
\<close>
theorem switch_serves_latest:
  assumes "reachable s" and "respond LoadAllSlot tr s = Some s'"
  shows "server_log s' = server_log s @ served tr (last (slot_cmds LoadAllSlot (store_log s)))"
proof -
  obtain r a where q: "pending LoadAllSlot (rx s) = r # pending LoadAllSlot (rx s')"
    and log: "server_log s' = server_log s @ served tr r"
    using respond_Some [OF assms(2)] by blast
  have "switch_inv s" using reachable_app_inv [OF assms(1)] by (simp add: app_inv_def)
  with q have "r = last (slot_cmds LoadAllSlot (store_log s))" by (auto simp: switch_inv_def)
  with log show ?thesis by simp
qed

theorem switch_serves_latest_witness:
  "reachable (the (run ex_switch app_init)) \<and>
   respond LoadAllSlot Delivered (the (run ex_switch app_init)) =
     Some (the (run (ex_switch @ [Respond LoadAllSlot Delivered]) app_init)) \<and>
   server_log (the (run (ex_switch @ [Respond LoadAllSlot Delivered]) app_init)) =
     server_log (the (run ex_switch app_init)) @
       served Delivered (last (slot_cmds LoadAllSlot (store_log (the (run ex_switch app_init))))) \<and>
   server_log (the (run (ex_switch @ [Respond LoadAllSlot Delivered]) app_init)) = [ReqLoadAll 10 10]"
proof -
  have r: "reachable (the (run ex_switch app_init))"
    by (rule reachable_run_init) code_simp
  have e: "respond LoadAllSlot Delivered (the (run ex_switch app_init)) =
     Some (the (run (ex_switch @ [Respond LoadAllSlot Delivered]) app_init))"
    by (simp add: ex_switch_def app_init_def rx_init_def respond_defs data_effect_defs complete_def
        served_def service_loadAll_def)
  have c: "server_log (the (run (ex_switch @ [Respond LoadAllSlot Delivered]) app_init)) =
     server_log (the (run ex_switch app_init)) @
       served Delivered (last (slot_cmds LoadAllSlot (store_log (the (run ex_switch app_init)))))"
    by (rule switch_serves_latest [OF r e])
  have v: "server_log (the (run (ex_switch @ [Respond LoadAllSlot Delivered]) app_init)) = [ReqLoadAll 10 10]"
    by (simp add: ex_switch_def app_init_def rx_init_def respond_defs data_effect_defs complete_def
        served_def service_loadAll_def)
  from r e c v show ?thesis by blast
qed

text \<open>
  C4. Dispatching \<open>loadAll(o1, l1)\<close> and then \<open>loadAll(o2, l2)\<close> before an answer yields exactly one terminal event, the answer for \<open>(o2, l2)\<close>; the first request is never answered and nothing else is pending afterwards.
\<close>
theorem loadAll_superseded_never_answered:
  "\<exists>s'. respond LoadAllSlot tr (dispatch (LoadAll o2 l2) (dispatch (LoadAll o1 l1) s)) = Some s' \<and>
     store_log s' = store_log s @ [LoadAll o1 l1, LoadAll o2 l2,
                                  loadAll_answer (fst (over_http tr (service_loadAll o2 l2) (server s)))] \<and>
     server_log s' = server_log s @ served tr (ReqLoadAll o2 l2) \<and>
     respond LoadAllSlot tr' s' = None"
  by (simp add: respond_defs data_effect_defs Let_def split_def over_http_def service_loadAll_def
      split: transport.splits)

text \<open>
  C5. Effects never drop a request: whenever a slot has a pending request, its answer can be delivered whatever the transport outcome, and it dispatches exactly one answer action of that slot.
\<close>
theorem answer_always_delivered:
  assumes "pending sl (rx s) \<noteq> []"
  shows "\<exists>s' a. respond sl tr s = Some s' \<and> store_log s' = store_log s @ [a] \<and> outcome_slot a = Some sl"
proof -
  from assms obtain s' where "respond sl tr s = Some s'"
    by (cases "respond sl tr s") (auto simp: respond_None_iff)
  then show ?thesis using respond_Some by blast
qed

theorem answer_always_delivered_witness:
  "pending RemoveSlot (rx (dispatch (Remove ''t9'') app_init)) \<noteq> [] \<and>
   (\<exists>s' a. respond RemoveSlot (HttpError 503) (dispatch (Remove ''t9'') app_init) = Some s' \<and>
      store_log s' = store_log (dispatch (Remove ''t9'') app_init) @ [a] \<and> outcome_slot a = Some RemoveSlot)"
proof -
  have p: "pending RemoveSlot (rx (dispatch (Remove ''t9'') app_init)) \<noteq> []" by code_simp
  show ?thesis using answer_always_delivered [OF p] p by blast
qed

text \<open>
  C6. A transport failure with HTTP status \<open>st\<close> leaves the server untouched and is turned by \<open>catchError\<close> into the slot's failure action carrying the error kind of \<open>st\<close> (404 NotFound, 400 ValidationError, 5xx ServiceUnavailable).
\<close>
theorem transport_error_answer:
  assumes "respond sl (HttpError st) s = Some s'"
  shows "server s' = server s \<and> server_log s' = server_log s \<and>
         answer_failure (last (store_log s')) = Some (error_of_status st, ''HTTP '' @ decimal st)"
proof (cases sl)
  case LoadAllSlot with assms show ?thesis
    by (auto simp: respond_def respond_loadAll_def served_def loadAll_answer_def split: option.splits)
next
  case LoadSlot with assms show ?thesis
    by (auto simp: respond_def respond_load_def served_def load_answer_def split: list.splits)
next
  case CreateSlot with assms show ?thesis
    by (auto simp: respond_def respond_create_def served_def create_answer_def split: list.splits)
next
  case UpdateSlot with assms show ?thesis
    by (auto simp: respond_def respond_update_def served_def update_answer_def split: list.splits)
next
  case RemoveSlot with assms show ?thesis
    by (auto simp: respond_def respond_remove_def served_def remove_answer_def split: list.splits)
qed

theorem transport_error_answer_witness:
  "respond LoadSlot (HttpError 404) (dispatch (Load ''t1'') app_init) =
     Some (the (run [Dispatch (Load ''t1''), Respond LoadSlot (HttpError 404)] app_init)) \<and>
   answer_failure (last (store_log (the (run [Dispatch (Load ''t1''), Respond LoadSlot (HttpError 404)] app_init)))) =
     Some (error_of_status 404, ''HTTP '' @ decimal 404) \<and>
   error_of_status 404 = NotFound"
proof -
  have e: "respond LoadSlot (HttpError 404) (dispatch (Load ''t1'') app_init) =
     Some (the (run [Dispatch (Load ''t1''), Respond LoadSlot (HttpError 404)] app_init))" by code_simp
  have c: "answer_failure (last (store_log (the (run [Dispatch (Load ''t1''), Respond LoadSlot (HttpError 404)] app_init)))) =
     Some (error_of_status 404, ''HTTP '' @ decimal 404)"
    using transport_error_answer [OF e] by blast
  have k: "error_of_status 404 = NotFound" by simp
  from e c k show ?thesis by blast
qed

text \<open>
  C7. In every reachable state the server's store is well formed: ordered by strictly increasing \<open>createdAt\<close>, identifiers derived from timestamps, non-empty titles; hence identifiers are unique.
\<close>
theorem reachable_server_wf:
  "reachable s \<Longrightarrow> repo_wf (server s) \<and> distinct (map todo_id (todos (server s)))"
  using reachable_app_inv repo_wf_distinct_ids by (auto simp: app_inv_def)

theorem reachable_server_wf_witness:
  "reachable (the (run ex_fifo app_init)) \<and> repo_wf (server (the (run ex_fifo app_init))) \<and>
   distinct (map todo_id (todos (server (the (run ex_fifo app_init))))) \<and>
   map todo_id (todos (server (the (run ex_fifo app_init)))) = [''t1'']"
proof -
  have r: "reachable (the (run ex_fifo app_init))" by (rule reachable_run_init) code_simp
  have v: "map todo_id (todos (server (the (run ex_fifo app_init)))) = [''t1'']" by code_simp
  from r v reachable_server_wf [OF r] show ?thesis by blast
qed

text \<open>
  C8. In every reachable state each dialog reference field of \<open>TodoEffects\<close> that is assigned names a dialog that \<open>MatDialog\<close> opened, of the component the field is declared with.
\<close>
theorem reachable_dialogs_wf: "reachable s \<Longrightarrow> dialogs_wf (ui s)"
  using reachable_app_inv by (auto simp: app_inv_def)

theorem reachable_dialogs_wf_witness:
  "reachable (the (run [Dispatch ShowCreateDialog] app_init)) \<and>
   dialogs_wf (ui (the (run [Dispatch ShowCreateDialog] app_init))) \<and>
   createDialogRef (ui (the (run [Dispatch ShowCreateDialog] app_init))) = Some 0"
proof -
  have r: "reachable (the (run [Dispatch ShowCreateDialog] app_init))" by (rule reachable_run_init) code_simp
  have v: "createDialogRef (ui (the (run [Dispatch ShowCreateDialog] app_init))) = Some 0" by code_simp
  from r v reachable_dialogs_wf [OF r] show ?thesis by blast
qed

text \<open>
  C9. Answering a pending create with a title that is not blank after trimming dispatches createSuccess with a todo whose title is the trimmed title, which is not completed, whose id is fresh with respect to the store, and which is now in the store.
\<close>
theorem create_answer_fresh:
  assumes "reachable s" and "create_queue (rx s) = t # rest" and "trim t \<noteq> []"
  shows "\<exists>s' u. respond CreateSlot Delivered s = Some s' \<and> last (store_log s') = CreateSuccess u \<and>
           title u = trim t \<and> completed u = False \<and>
           todo_id u \<notin> todo_id ` set (todos (server s)) \<and> u \<in> set (todos (server s'))"
proof -
  have wf: "repo_wf (server s)" using reachable_app_inv [OF assms(1)] by (simp add: app_inv_def)
  obtain u r' where c: "service_create t (server s) = (Success u, r')"
    using assms(3) by (simp add: service_create_def repo_create_def Let_def)
  then have rc: "repo_create (trim t) (server s) = (Success u, r')"
    using assms(3) by (simp add: service_create_def Let_def)
  have u: "title u = trim t \<and> completed u = False \<and> r' = (server s)\<lparr>todos := todos (server s) @ [u], seq := Suc (seq (server s))\<rparr>"
    using service_create_Success [OF c] by simp
  have fresh: "todo_id u \<notin> todo_id ` set (todos (server s))"
    using repo_create_fresh [OF wf rc] .
  show ?thesis
    using assms(2) c u fresh
    by (simp add: respond_def respond_create_def create_answer_def)
qed

theorem create_answer_fresh_witness:
  "reachable (the (run ex_create app_init)) \<and>
   create_queue (rx (the (run ex_create app_init))) = ''  Buy milk  '' # [] \<and>
   trim ''  Buy milk  '' \<noteq> [] \<and> trim ''  Buy milk  '' = ''Buy milk'' \<and>
   (\<exists>s' u. respond CreateSlot Delivered (the (run ex_create app_init)) = Some s' \<and>
      last (store_log s') = CreateSuccess u \<and> title u = trim ''  Buy milk  '' \<and> completed u = False \<and>
      todo_id u \<notin> todo_id ` set (todos (server (the (run ex_create app_init)))) \<and>
      u \<in> set (todos (server s')))"
proof -
  have r: "reachable (the (run ex_create app_init))" by (rule reachable_run_init) code_simp
  have q: "create_queue (rx (the (run ex_create app_init))) = ''  Buy milk  '' # []" by code_simp
  have t: "trim ''  Buy milk  '' \<noteq> []" and v: "trim ''  Buy milk  '' = ''Buy milk''" by code_simp+
  from r q t v create_answer_fresh [OF r q t] show ?thesis by blast
qed

text \<open>
  C10. Removing an id that is not in the store is answered with removeFailure carrying NotFound, and the store is unchanged (in particular a second remove of a removed todo fails).
\<close>
theorem remove_absent_not_found:
  assumes "remove_queue (rx s) = i # rest" and "i \<notin> todo_id ` set (todos (server s))"
  shows "\<exists>s'. respond RemoveSlot Delivered s = Some s' \<and>
           last (store_log s') = RemoveFailure (NotFound, ''no such todo'') \<and> server s' = server s"
  using assms
  by (simp add: respond_def respond_remove_def remove_answer_def service_remove_def repo_ops_absent)

theorem remove_absent_not_found_witness:
  "remove_queue (rx (dispatch (Remove ''t7'') app_init)) = ''t7'' # [] \<and>
   ''t7'' \<notin> todo_id ` set (todos (server (dispatch (Remove ''t7'') app_init))) \<and>
   (\<exists>s'. respond RemoveSlot Delivered (dispatch (Remove ''t7'') app_init) = Some s' \<and>
      last (store_log s') = RemoveFailure (NotFound, ''no such todo'') \<and>
      server s' = server (dispatch (Remove ''t7'') app_init))"
proof -
  have q: "remove_queue (rx (dispatch (Remove ''t7'') app_init)) = ''t7'' # []" by code_simp
  have a: "''t7'' \<notin> todo_id ` set (todos (server (dispatch (Remove ''t7'') app_init)))"
    by (simp add: app_init_def repo_init_def)
  from q a remove_absent_not_found [OF q a] show ?thesis by blast
qed

text \<open>
  C11. Loading, or updating without a new title, an id that is not in the store is answered with the failure action carrying NotFound, and the store is unchanged.
\<close>
theorem load_update_absent_not_found:
  assumes "i \<notin> todo_id ` set (todos (server s))"
  shows "(load_queue (rx s) = i # rest \<longrightarrow>
           (\<exists>s'. respond LoadSlot Delivered s = Some s' \<and>
              last (store_log s') = LoadFailure (NotFound, ''no such todo'') \<and> server s' = server s)) \<and>
         (update_queue (rx s) = (i, p) # rest' \<and> patch_title p = None \<longrightarrow>
           (\<exists>s'. respond UpdateSlot Delivered s = Some s' \<and>
              last (store_log s') = UpdateFailure (NotFound, ''no such todo'') \<and> server s' = server s))"
  using assms
  by (simp add: respond_def respond_load_def respond_update_def load_answer_def update_answer_def
      service_load_def service_update_def repo_ops_absent)

theorem load_update_absent_not_found_witness:
  "load_queue (rx (the (run [Dispatch (Load ''t3''), Dispatch (Update ''t3'' p_done)] app_init))) = ''t3'' # [] \<and>
   update_queue (rx (the (run [Dispatch (Load ''t3''), Dispatch (Update ''t3'' p_done)] app_init))) = (''t3'', p_done) # [] \<and>
   patch_title p_done = None \<and>
   ''t3'' \<notin> todo_id ` set (todos (server (the (run [Dispatch (Load ''t3''), Dispatch (Update ''t3'' p_done)] app_init)))) \<and>
   (\<exists>s'. respond LoadSlot Delivered (the (run [Dispatch (Load ''t3''), Dispatch (Update ''t3'' p_done)] app_init)) = Some s' \<and>
      last (store_log s') = LoadFailure (NotFound, ''no such todo'') \<and>
      server s' = server (the (run [Dispatch (Load ''t3''), Dispatch (Update ''t3'' p_done)] app_init))) \<and>
   (\<exists>s'. respond UpdateSlot Delivered (the (run [Dispatch (Load ''t3''), Dispatch (Update ''t3'' p_done)] app_init)) = Some s' \<and>
      last (store_log s') = UpdateFailure (NotFound, ''no such todo'') \<and>
      server s' = server (the (run [Dispatch (Load ''t3''), Dispatch (Update ''t3'' p_done)] app_init)))"
proof -
  have ql: "load_queue (rx (the (run [Dispatch (Load ''t3''), Dispatch (Update ''t3'' p_done)] app_init))) = ''t3'' # []"
    by code_simp
  have qu: "update_queue (rx (the (run [Dispatch (Load ''t3''), Dispatch (Update ''t3'' p_done)] app_init))) = (''t3'', p_done) # []"
    by code_simp
  have p: "patch_title p_done = None" by (simp add: p_done_def)
  have a: "''t3'' \<notin> todo_id ` set (todos (server (the (run [Dispatch (Load ''t3''), Dispatch (Update ''t3'' p_done)] app_init))))"
    by code_simp
  from ql qu p a load_update_absent_not_found [OF a] show ?thesis by blast
qed

text \<open>
  C12. A loadAll page never holds more than its limit, is ordered by strictly increasing createdAt and consists of todos of the store; a limit of 0 is answered with a ValidationError failure.
\<close>
theorem loadAll_page_bounds:
  assumes "reachable s" and "loadAll_inflight (rx s) = Some (off, lim)"
    and "respond LoadAllSlot Delivered s = Some s'"
  shows "(last (store_log s') = LoadAllSuccess ts \<longrightarrow>
            0 < lim \<and> length ts \<le> lim \<and> sorted_wrt (\<lambda>a b. createdAt a < createdAt b) ts \<and>
            set ts \<subseteq> set (todos (server s))) \<and>
         (lim = 0 \<longrightarrow> last (store_log s') = LoadAllFailure (ValidationError, ''limit must be positive''))"
proof -
  have wf: "repo_wf (server s)" using reachable_app_inv [OF assms(1)] by (simp add: app_inv_def)
  have s': "last (store_log s') = loadAll_answer (repo_findAll off lim (server s))"
    using respond_loadAll_answer [OF assms(2), of Delivered] assms(3) by (auto simp: service_loadAll_def)
  have ok: "0 < lim \<and> length ts \<le> lim \<and> sorted_wrt (\<lambda>a b. createdAt a < createdAt b) ts \<and>
            set ts \<subseteq> set (todos (server s))" if "repo_findAll off lim (server s) = Success ts"
  proof -
    have ts: "0 < lim \<and> ts = take lim (drop off (todos (server s)))"
      by (rule repo_findAll_Success [OF that])
    have "set (take lim (drop off (todos (server s)))) \<subseteq> set (todos (server s))"
      by (rule set_take_drop_subset)
    with ts wf show ?thesis by (auto simp: repo_wf_def)
  qed
  show ?thesis
  proof (cases "repo_findAll off lim (server s)")
    case (Success ts')
    then have "lim \<noteq> 0" by (simp add: repo_findAll_def split: if_splits)
    with Success s' ok show ?thesis by (simp add: loadAll_answer_def)
  next
    case (Failure k m)
    with s' show ?thesis by (simp add: loadAll_answer_def repo_findAll_def split: if_splits)
  qed
qed

theorem loadAll_page_bounds_witness:
  "reachable (the (run ex_page app_init)) \<and>
   loadAll_inflight (rx (the (run ex_page app_init))) = Some (0, 10) \<and>
   (\<exists>s'. respond LoadAllSlot Delivered (the (run ex_page app_init)) = Some s' \<and>
      last (store_log s') = LoadAllSuccess [\<lparr>todo_id = ''t1'', title = ''Buy milk'', completed = False, createdAt = 1\<rparr>] \<and>
      0 < (10::nat) \<and> length [\<lparr>todo_id = ''t1'', title = ''Buy milk'', completed = False, createdAt = 1\<rparr>] \<le> 10 \<and>
      sorted_wrt (\<lambda>a b. createdAt a < createdAt b) [\<lparr>todo_id = ''t1'', title = ''Buy milk'', completed = False, createdAt = 1\<rparr>] \<and>
      set [\<lparr>todo_id = ''t1'', title = ''Buy milk'', completed = False, createdAt = 1\<rparr>] \<subseteq> set (todos (server (the (run ex_page app_init)))))"
proof -
  have r: "reachable (the (run ex_page app_init))" by (rule reachable_run_init) code_simp
  have i: "loadAll_inflight (rx (the (run ex_page app_init))) = Some (0, 10)" by code_simp
  obtain s' where e: "respond LoadAllSlot Delivered (the (run ex_page app_init)) = Some s'"
    and lg: "store_log s' = store_log (the (run ex_page app_init)) @
       [loadAll_answer (fst (over_http Delivered (service_loadAll 0 10) (server (the (run ex_page app_init)))))]"
    using respond_loadAll_answer [OF i, of Delivered] by blast
  have a: "loadAll_answer (fst (over_http Delivered (service_loadAll 0 10) (server (the (run ex_page app_init))))) =
     LoadAllSuccess [\<lparr>todo_id = ''t1'', title = ''Buy milk'', completed = False, createdAt = 1\<rparr>]" by code_simp
  then have l: "last (store_log s') = LoadAllSuccess [\<lparr>todo_id = ''t1'', title = ''Buy milk'', completed = False, createdAt = 1\<rparr>]" using lg by simp
  have b: "0 < (10::nat) \<and> length [\<lparr>todo_id = ''t1'', title = ''Buy milk'', completed = False, createdAt = 1\<rparr>] \<le> 10 \<and>
      sorted_wrt (\<lambda>a b. createdAt a < createdAt b) [\<lparr>todo_id = ''t1'', title = ''Buy milk'', completed = False, createdAt = 1\<rparr>] \<and>
      set [\<lparr>todo_id = ''t1'', title = ''Buy milk'', completed = False, createdAt = 1\<rparr>] \<subseteq> set (todos (server (the (run ex_page app_init))))"
    using loadAll_page_bounds [OF r i e] l by blast
  from r i e l b show ?thesis by blast
qed

text \<open>
  C13. Two updates of the same todo dispatched one after the other are applied by the server in that order, so the title that remains is the second one.
\<close>
theorem updates_apply_in_order:
  assumes "update_queue (rx s) = []" and "lookup_todo i (server s) = Some t"
    and "trim a \<noteq> []" and "trim b \<noteq> []"
    and "run [Dispatch (Update i (patch_title_only a)), Dispatch (Update i (patch_title_only b)),
              Respond UpdateSlot Delivered, Respond UpdateSlot Delivered] s = Some s'"
  shows "map_option title (lookup_todo i (server s')) = Some (trim b) \<and>
         server_log s' = server_log s @ [ReqUpdate i (patch_title_only a), ReqUpdate i (patch_title_only b)]"
proof -
  let ?s2 = "dispatch (Update i (patch_title_only b)) (dispatch (Update i (patch_title_only a)) s)"
  have q2: "update_queue (rx ?s2) = [(i, patch_title_only a), (i, patch_title_only b)]"
    using assms(1) by (simp add: data_effect_defs)
  obtain s3 where s3: "respond UpdateSlot Delivered ?s2 = Some s3"
    and sv3: "server s3 = snd (service_update i (patch_title_only a) (server s))"
    and q3: "update_queue (rx s3) = [(i, patch_title_only b)]"
    and lg3: "server_log s3 = server_log s @ [ReqUpdate i (patch_title_only a)]"
    using respond_update_Delivered [OF q2] by auto
  obtain s4 where s4: "respond UpdateSlot Delivered s3 = Some s4"
    and sv4: "server s4 = snd (service_update i (patch_title_only b) (server s3))"
    and lg4: "server_log s4 = server_log s3 @ [ReqUpdate i (patch_title_only b)]"
    using respond_update_Delivered [OF q3] by auto
  have "s' = s4" using assms(5) s3 s4 by simp
  let ?pa = "\<lparr>patch_title = Some (trim a), patch_completed = None\<rparr>"
  let ?pb = "\<lparr>patch_title = Some (trim b), patch_completed = None\<rparr>"
  have ta: "title (merge_patch ?pa t) \<noteq> []" using assms(3) by (simp add: merge_patch_def)
  have l1: "lookup_todo i (server s3) = Some (merge_patch ?pa t)"
    using repo_update_Success [OF assms(2) ta] assms(3) sv3
    by (simp add: service_update_def patch_title_only_def Let_def)
  have tb: "title (merge_patch ?pb (merge_patch ?pa t)) \<noteq> []" using assms(4) by (simp add: merge_patch_def)
  have l2: "lookup_todo i (server s4) = Some (merge_patch ?pb (merge_patch ?pa t))"
    using repo_update_Success [OF l1 tb] assms(4) sv4
    by (simp add: service_update_def patch_title_only_def Let_def)
  show ?thesis
    using l2 lg3 lg4 \<open>s' = s4\<close> by (simp add: merge_patch_def)
qed

theorem updates_apply_in_order_witness:
  "update_queue (rx (the (run ex_created app_init))) = [] \<and>
   lookup_todo ''t1'' (server (the (run ex_created app_init))) =
     Some \<lparr>todo_id = ''t1'', title = ''Buy milk'', completed = False, createdAt = 1\<rparr> \<and>
   trim ''A'' \<noteq> [] \<and> trim ''B'' \<noteq> [] \<and>
   run ex_two_updates (the (run ex_created app_init)) = Some (the (run (ex_created @ ex_two_updates) app_init)) \<and>
   map_option title (lookup_todo ''t1'' (server (the (run (ex_created @ ex_two_updates) app_init)))) = Some (trim ''B'') \<and>
   server_log (the (run (ex_created @ ex_two_updates) app_init)) =
     server_log (the (run ex_created app_init)) @ [ReqUpdate ''t1'' (patch_title_only ''A''), ReqUpdate ''t1'' (patch_title_only ''B'')]"
proof -
  have q: "update_queue (rx (the (run ex_created app_init))) = []" by code_simp
  have l: "lookup_todo ''t1'' (server (the (run ex_created app_init))) =
     Some \<lparr>todo_id = ''t1'', title = ''Buy milk'', completed = False, createdAt = 1\<rparr>" by code_simp
  have ta: "trim ''A'' \<noteq> []" and tb: "trim ''B'' \<noteq> []" by code_simp+
  have e: "run [Dispatch (Update ''t1'' (patch_title_only ''A'')), Dispatch (Update ''t1'' (patch_title_only ''B'')),
                Respond UpdateSlot Delivered, Respond UpdateSlot Delivered] (the (run ex_created app_init)) =
           Some (the (run (ex_created @ ex_two_updates) app_init))" by code_simp
  have c: "map_option title (lookup_todo ''t1'' (server (the (run (ex_created @ ex_two_updates) app_init)))) = Some (trim ''B'') \<and>
     server_log (the (run (ex_created @ ex_two_updates) app_init)) =
     server_log (the (run ex_created app_init)) @ [ReqUpdate ''t1'' (patch_title_only ''A''), ReqUpdate ''t1'' (patch_title_only ''B'')]"
    by (rule updates_apply_in_order [OF q l ta tb e])
  have e': "run ex_two_updates (the (run ex_created app_init)) = Some (the (run (ex_created @ ex_two_updates) app_init))"
    using e by (simp add: ex_two_updates_def)
  from q l ta tb e' c show ?thesis by blast
qed

text \<open>
  C14. Each show-dialog command stores the reference of the dialog it opens, and the matching success action (createSuccess, updateSuccess, removeSuccess) closes exactly that dialog, as long as the hide effect is still subscribed.
\<close>
theorem success_closes_dialog:
  assumes "hideCreate_sub d \<noteq> Stopped" "hideEdit_sub d \<noteq> Stopped" "hideRemove_sub d \<noteq> Stopped"
  shows "createDialogRef (dialog_effects ShowCreateDialog d) = Some (length (mat d)) \<and>
   is_open (mat (dialog_effects ShowCreateDialog d) ! length (mat d)) \<and>
   \<not> is_open (mat (dialog_effects (CreateSuccess t) (dialog_effects ShowCreateDialog d)) ! length (mat d)) \<and>
   editDialogRef (dialog_effects (ShowEditDialog t) d) = Some (length (mat d)) \<and>
   \<not> is_open (mat (dialog_effects (UpdateSuccess t) (dialog_effects (ShowEditDialog t) d)) ! length (mat d)) \<and>
   removeDialogRef (dialog_effects (ShowRemoveDialog i) d) = Some (length (mat d)) \<and>
   \<not> is_open (mat (dialog_effects (RemoveSuccess i) (dialog_effects (ShowRemoveDialog i) d)) ! length (mat d))"
  using assms
  by (simp add: dialog_effects_def dialog_effect_defs run_tap_close_ref Let_def mat_close_def nth_append)

theorem success_closes_dialog_witness:
  "hideCreate_sub dialogs_init \<noteq> Stopped \<and> hideEdit_sub dialogs_init \<noteq> Stopped \<and>
   hideRemove_sub dialogs_init \<noteq> Stopped \<and>
   \<not> is_open (mat (dialog_effects (CreateSuccess \<lparr>todo_id = ''t1'', title = ''Buy milk'', completed = False, createdAt = 1\<rparr>)
     (dialog_effects ShowCreateDialog dialogs_init)) ! 0)"
proof -
  have h: "hideCreate_sub dialogs_init \<noteq> Stopped" "hideEdit_sub dialogs_init \<noteq> Stopped"
    "hideRemove_sub dialogs_init \<noteq> Stopped" by (simp_all add: dialogs_init_def)
  have "mat dialogs_init = []" by (simp add: dialogs_init_def)
  with h success_closes_dialog [OF h, of "\<lparr>todo_id = ''t1'', title = ''Buy milk'', completed = False, createdAt = 1\<rparr>"]
  show ?thesis by simp
qed

text \<open>
  C15. Failure actions close no dialog and change no dialog reference: after createFailure, updateFailure or removeFailure the dialog stays open for the user.
\<close>
theorem failure_keeps_dialogs:
  "dialog_effects (CreateFailure f) d = d \<and> dialog_effects (UpdateFailure f) d = d \<and>
   dialog_effects (RemoveFailure f) d = d"
  by (simp add: dialog_effects_def dialog_effect_defs)

text \<open>
  C16. Two showCreateDialog commands open two dialogs and overwrite the reference; createSuccess closes only the second, and the first stays open for good.
\<close>
theorem double_open_orphans_dialog:
  assumes "hideCreate_sub d \<noteq> Stopped"
  shows "is_open (mat (dialog_effects (CreateSuccess t)
      (dialog_effects ShowCreateDialog (dialog_effects ShowCreateDialog d))) ! length (mat d)) \<and>
   \<not> is_open (mat (dialog_effects (CreateSuccess t)
      (dialog_effects ShowCreateDialog (dialog_effects ShowCreateDialog d))) ! Suc (length (mat d)))"
  using assms
  by (simp add: dialog_effects_def dialog_effect_defs run_tap_close_ref Let_def mat_close_def nth_append)

theorem double_open_orphans_dialog_witness:
  "hideCreate_sub dialogs_init \<noteq> Stopped \<and>
   is_open (mat (dialog_effects (CreateSuccess \<lparr>todo_id = ''t1'', title = ''Buy milk'', completed = False, createdAt = 1\<rparr>)
      (dialog_effects ShowCreateDialog (dialog_effects ShowCreateDialog dialogs_init))) ! 0)"
proof -
  have h: "hideCreate_sub dialogs_init \<noteq> Stopped" by (simp add: dialogs_init_def)
  have "mat dialogs_init = []" by (simp add: dialogs_init_def)
  with h double_open_orphans_dialog [OF h, of "\<lparr>todo_id = ''t1'', title = ''Buy milk'', completed = False, createdAt = 1\<rparr>"]
  show ?thesis by simp
qed

text \<open>
  C17. createSuccess when no create dialog was ever opened (the reference is undefined) closes nothing and raises a TypeError; NgRx's error handler reports it and resubscribes the effect with one retry attempt less.
\<close>
theorem success_without_dialog_type_error:
  assumes "createDialogRef d = None" and "hideCreate_sub d = Guarded n" and "1 < n"
  shows "mat (dialog_effects (CreateSuccess t) d) = mat d \<and>
         reported (dialog_effects (CreateSuccess t) d) =
           reported d @ [TypeError ''Cannot read properties of undefined (reading 'close')''] \<and>
         hideCreate_sub (dialog_effects (CreateSuccess t) d) = Guarded (n - 1)"
  using assms
  by (simp add: dialog_effects_def dialog_effect_defs run_tap_close_ref effect_error_def Let_def)

theorem success_without_dialog_type_error_witness:
  "createDialogRef (ui (the (run [Dispatch (Create ''Buy milk'')] app_init))) = None \<and>
   hideCreate_sub (ui (the (run [Dispatch (Create ''Buy milk'')] app_init))) = Guarded 10 \<and>
   reported (dialog_effects (CreateSuccess \<lparr>todo_id = ''t1'', title = ''Buy milk'', completed = False, createdAt = 1\<rparr>)
     (ui (the (run [Dispatch (Create ''Buy milk'')] app_init)))) =
     [TypeError ''Cannot read properties of undefined (reading 'close')''] \<and>
   hideCreate_sub (ui (the (run ex_created app_init))) = Guarded 9"
proof -
  have n: "createDialogRef (ui (the (run [Dispatch (Create ''Buy milk'')] app_init))) = None" by code_simp
  have g: "hideCreate_sub (ui (the (run [Dispatch (Create ''Buy milk'')] app_init))) = Guarded 10" by code_simp
  have r0: "reported (ui (the (run [Dispatch (Create ''Buy milk'')] app_init))) = []" by code_simp
  have v: "hideCreate_sub (ui (the (run ex_created app_init))) = Guarded 9" by code_simp
  from n g r0 v success_without_dialog_type_error [OF n g] show ?thesis by simp
qed

text \<open>
  C18. update and remove are separate concatMap effects, so requests of the two are not ordered with each other: in any reachable state where an update and a remove of the same stored todo are both pending, either may be answered first; answered update-first the update succeeds, answered remove-first the server processes the remove before the update, which then fails with NotFound although it was dispatched earlier.
\<close>
theorem cross_slot_reorder:
  assumes "reachable s" and "update_queue (rx s) = (i, p) # us" and "remove_queue (rx s) = i # rs"
    and "lookup_todo i (server s) \<noteq> None" and "patch_title p = None"
  shows "(\<exists>s1. respond UpdateSlot Delivered s = Some s1 \<and> (\<exists>t. last (store_log s1) = UpdateSuccess t)) \<and>
         (\<exists>s1 s2. respond RemoveSlot Delivered s = Some s1 \<and> respond UpdateSlot Delivered s1 = Some s2 \<and>
            server_log s2 = server_log s @ [ReqRemove i, ReqUpdate i p] \<and>
            last (store_log s1) = RemoveSuccess i \<and>
            last (store_log s2) = UpdateFailure (NotFound, ''no such todo''))"
proof -
  obtain t where t: "lookup_todo i (server s) = Some t" using assms(4) by auto
  have wf: "repo_wf (server s)" using reachable_app_inv [OF assms(1)] by (simp add: app_inv_def)
  from t have "t \<in> set (todos (server s))" by (auto dest: lookup_todo_Some)
  with wf have "title t \<noteq> []" by (simp add: repo_wf_def)
  with t assms(5) have upd: "fst (service_update i p (server s)) = Success (merge_patch p t)"
    by (simp add: service_update_def repo_update_def merge_patch_def Let_def)
  have first: "\<exists>s1. respond UpdateSlot Delivered s = Some s1 \<and> (\<exists>t. last (store_log s1) = UpdateSuccess t)"
    using respond_update_Delivered_eq [OF assms(2)] upd by (simp add: update_answer_def)
  let ?s1 = "complete Delivered (ReqRemove i) (snd (service_remove i (server s)))
             (remove_answer i (fst (service_remove i (server s))))
             (s\<lparr>rx := (rx s)\<lparr>remove_queue := rs\<rparr>\<rparr>)"
  have r1: "respond RemoveSlot Delivered s = Some ?s1" by (rule respond_remove_Delivered_eq [OF assms(3)])
  have a1: "last (store_log ?s1) = RemoveSuccess i"
    using t by (simp add: service_remove_def repo_remove_def remove_answer_def)
  have q1: "update_queue (rx ?s1) = (i, p) # us" using assms(2) by simp
  have gone: "lookup_todo i (server ?s1) = None" by (simp add: service_remove_def lookup_todo_removed)
  then have "fst (service_update i p (server ?s1)) = Failure NotFound ''no such todo''"
    using assms(5) by (simp add: service_update_def repo_update_def)
  with respond_update_Delivered_eq [OF q1] r1 a1 have
    "\<exists>s2. respond UpdateSlot Delivered ?s1 = Some s2 \<and>
        server_log s2 = server_log s @ [ReqRemove i, ReqUpdate i p] \<and>
        last (store_log s2) = UpdateFailure (NotFound, ''no such todo'')"
    by (simp add: update_answer_def served_def)
  with r1 a1 first show ?thesis by blast
qed

theorem cross_slot_reorder_witness:
  "reachable (the (run ex_reorder app_init)) \<and>
   update_queue (rx (the (run ex_reorder app_init))) = [(''t1'', p_done)] \<and>
   remove_queue (rx (the (run ex_reorder app_init))) = [''t1''] \<and>
   lookup_todo ''t1'' (server (the (run ex_reorder app_init))) \<noteq> None \<and> patch_title p_done = None \<and>
   (\<exists>s1 s2. respond RemoveSlot Delivered (the (run ex_reorder app_init)) = Some s1 \<and>
      respond UpdateSlot Delivered s1 = Some s2 \<and>
      last (store_log s2) = UpdateFailure (NotFound, ''no such todo''))"
proof -
  have r: "reachable (the (run ex_reorder app_init))" by (rule reachable_run_init) code_simp
  have u: "update_queue (rx (the (run ex_reorder app_init))) = [(''t1'', p_done)]" by code_simp
  have m: "remove_queue (rx (the (run ex_reorder app_init))) = [''t1'']" by code_simp
  have l: "lookup_todo ''t1'' (server (the (run ex_reorder app_init))) \<noteq> None" by code_simp
  have p: "patch_title p_done = None" by (simp add: p_done_def)
  from r u m l p cross_slot_reorder [OF r u m l p] show ?thesis by blast
qed

text \<open>
  C19. The six dialog effects react to six distinct action types, so the order in which they see an action does not matter: any permutation of them (the subscription order after resubscriptions) computes dialog_effects, which is the one effect of the action's type.
\<close>
theorem dialog_effects_order_independent:
  assumes "mset effs = mset dialog_effect_list"
  shows "fold (\<lambda>e. e a) effs s = dialog_effects a s \<and> dialog_effects a s = dialog_react a s"
proof -
  have "fold (\<lambda>e. e a) dialog_effect_list = fold (\<lambda>e. e a) effs"
    by (rule fold_multiset_equiv) (auto intro: dialog_effects_commute simp: assms)
  moreover have "fold (\<lambda>e. e a) dialog_effect_list s = dialog_react a s"
    unfolding dialog_effect_list_def dialog_react_def
    by (cases a) (simp_all add: dialog_effect_defs)
  ultimately show ?thesis by (simp add: dialog_effects_fold)
qed

theorem dialog_effects_order_independent_witness:
  "mset (rev dialog_effect_list) = mset dialog_effect_list \<and>
   fold (\<lambda>e. e ShowCreateDialog) (rev dialog_effect_list) dialogs_init = dialog_effects ShowCreateDialog dialogs_init \<and>
   createDialogRef (dialog_effects ShowCreateDialog dialogs_init) = Some 0"
proof -
  have m: "mset (rev dialog_effect_list) = mset dialog_effect_list" by simp
  have "createDialogRef (dialog_effects ShowCreateDialog dialogs_init) = Some 0"
    by (simp add: dialog_effects_def dialog_effect_defs dialogs_init_def)
  with m dialog_effects_order_independent [OF m] show ?thesis by blast
qed

text \<open>
  C20. Every todo the effects deliver to the store (loadAllSuccess, loadSuccess, createSuccess, updateSuccess) is a well-formed todo of the contract: its id is t followed by its createdAt in decimal and its title is not empty.
\<close>
theorem delivered_todos_typed:
  assumes "reachable s" and "a \<in> set (store_log s)" and "t \<in> set (answer_todos a)"
  shows "todo_id t = mk_id (createdAt t) \<and> title t \<noteq> []"
  using reachable_app_inv [OF assms(1)] assms(2,3) by (auto simp: app_inv_def log_typed_def todo_ok_def)

theorem delivered_todos_typed_witness:
  "reachable (the (run ex_created app_init)) \<and>
   CreateSuccess \<lparr>todo_id = ''t1'', title = ''Buy milk'', completed = False, createdAt = 1\<rparr> \<in> set (store_log (the (run ex_created app_init))) \<and>
   ''t1'' = mk_id 1"
proof -
  have r: "reachable (the (run ex_created app_init))" by (rule reachable_run_init) code_simp
  have a: "CreateSuccess \<lparr>todo_id = ''t1'', title = ''Buy milk'', completed = False, createdAt = 1\<rparr> \<in> set (store_log (the (run ex_created app_init)))"
    by code_simp
  have "\<lparr>todo_id = ''t1'', title = ''Buy milk'', completed = False, createdAt = 1\<rparr> \<in>
      set (answer_todos (CreateSuccess \<lparr>todo_id = ''t1'', title = ''Buy milk'', completed = False, createdAt = 1\<rparr>))" by simp
  from r a delivered_todos_typed [OF r a this] show ?thesis by simp
qed

text \<open>
  C21. No request is silently dropped: from any reachable state, a concatMap slot can be answered once per pending request, whatever the transport outcomes, and then it is idle with exactly one answer action logged for every command of its kind.
\<close>
theorem concat_drain:
  assumes "reachable s" and "sl \<noteq> LoadAllSlot" and "length trs = length (pending sl (rx s))"
  shows "\<exists>s'. run (map (Respond sl) trs) s = Some s' \<and> reachable s' \<and> pending sl (rx s') = [] \<and>
           slot_answers sl (store_log s') = length (slot_cmds sl (store_log s'))"
proof -
  obtain s' where r: "run (map (Respond sl) trs) s = Some s'" and p: "pending sl (rx s') = []"
    and n: "slot_answers sl (store_log s') = slot_answers sl (store_log s) + length trs"
    and c: "slot_cmds sl (store_log s') = slot_cmds sl (store_log s)"
    using run_respond_all [OF assms(3)] by blast
  have "fifo_inv sl s" using reachable_app_inv [OF assms(1)] assms(2) by (simp add: app_inv_def)
  then have "slot_answers sl (store_log s) + length trs = length (slot_cmds sl (store_log s))"
    using assms(3) by (simp add: fifo_inv_def)
  with r p n c reachable_run [OF assms(1) r] show ?thesis by auto
qed

theorem concat_drain_witness:
  "reachable (the (run ex_three_updates app_init)) \<and> UpdateSlot \<noteq> LoadAllSlot \<and>
   length [Delivered, HttpError 503, Delivered] = length (pending UpdateSlot (rx (the (run ex_three_updates app_init)))) \<and>
   (\<exists>s'. run (map (Respond UpdateSlot) [Delivered, HttpError 503, Delivered]) (the (run ex_three_updates app_init)) = Some s' \<and>
      pending UpdateSlot (rx s') = [])"
proof -
  have r: "reachable (the (run ex_three_updates app_init))" by (rule reachable_run_init) code_simp
  have n: "UpdateSlot \<noteq> LoadAllSlot" by simp
  have l: "length [Delivered, HttpError 503, Delivered] = length (pending UpdateSlot (rx (the (run ex_three_updates app_init))))"
    by code_simp
  from r n l concat_drain [OF r n l] show ?thesis by blast
qed

text \<open>
  C22. Draining a slot with every call delivered terminates, leaves the slot idle, sends the pending requests to the server in queue order and logs one answer per request.
\<close>
theorem drain_terminates_idle:
  "pending sl (rx (drain sl s)) = [] \<and>
   server_log (drain sl s) = server_log s @ pending sl (rx s) \<and>
   slot_answers sl (store_log (drain sl s)) = slot_answers sl (store_log s) + length (pending sl (rx s))"
proof (induction sl s rule: drain.induct)
  case (1 sl s)
  show ?case
  proof (cases "respond sl Delivered s")
    case None
    then have "drain sl s = s" by simp
    moreover from None have "pending sl (rx s) = []" by (simp add: respond_None_iff)
    ultimately show ?thesis by simp
  next
    case (Some s')
    from respond_Some [OF Some] obtain r a where q: "pending sl (rx s) = r # pending sl (rx s')"
      and a: "outcome_slot a = Some sl" and log: "store_log s' = store_log s @ [a]"
      and sv: "server_log s' = server_log s @ served Delivered r" by blast
    from "1.IH" [OF Some] Some q a log sv show ?thesis by (simp add: served_def)
  qed
qed

text \<open>
  C23. The effects class refines the spec's RequestCoordinator (section 4.3): for every run of the application, the coordinator runs the matching events (each command submitted to its slot, each answer a terminal event of its slot) from the abstraction of the start state to the abstraction of the end state, which gives the pending requests of each slot and the outcome events of the store's log.
\<close>
theorem coordinator_refinement:
  assumes "run es s = Some s'"
  shows "\<exists>ces. list_all2 coord_matches es ces \<and> coord_run ces (coord_of s) = Some (coord_of s')"
  using assms
proof (induction es arbitrary: s)
  case Nil
  then show ?case by simp
next
  case (Cons e es)
  then obtain t where t: "app_step e s = Some t" and r: "run es t = Some s'"
    by (auto split: option.splits)
  from t obtain ce where m: "coord_matches e ce" and c: "coord_step ce (coord_of s) = Some (coord_of t)"
    using coord_simulation [of s e t] by (auto simp: app_trans_iff_step)
  from Cons.IH [OF r] obtain ces where "list_all2 coord_matches es ces"
    and "coord_run ces (coord_of t) = Some (coord_of s')" by blast
  with m c have "list_all2 coord_matches (e # es) (ce # ces) \<and>
      coord_run (ce # ces) (coord_of s) = Some (coord_of s')" by simp
  then show ?case by blast
qed

theorem coordinator_refinement_witness:
  "run ex_created app_init = Some (the (run ex_created app_init)) \<and>
   coord_reach (coord_of (the (run ex_created app_init))) \<and>
   terminal_events (coord_of (the (run ex_created app_init))) = [(CreateSlot, True)]"
proof -
  have r: "run ex_created app_init = Some (the (run ex_created app_init))" by code_simp
  have e: "terminal_events (coord_of (the (run ex_created app_init))) = [(CreateSlot, True)]"
    by code_simp
  from coordinator_refinement [OF r] obtain ces where
    "coord_run ces (coord_of app_init) = Some (coord_of (the (run ex_created app_init)))" by blast
  then have "coord_reach (coord_of (the (run ex_created app_init)))"
    using coord_run_reach [OF coord_reach.init, of ces] by simp
  with r e show ?thesis by blast
qed

text \<open>
  C24. The service's title normalisation holds for the whole store: in every reachable state every title the server holds is its own trimmed form and is not empty, whatever white space the create and update commands carried.
\<close>
theorem stored_titles_normalised:
  assumes "reachable s" and "t \<in> set (todos (server s))"
  shows "trim (title t) = title t \<and> title t \<noteq> []"
proof -
  have "titles_trimmed (server s) \<and> repo_wf (server s)"
    using reachable_app_inv [OF assms(1)] by (simp add: app_inv_def)
  with assms(2) show ?thesis by (simp add: titles_trimmed_def repo_wf_def)
qed

theorem stored_titles_normalised_witness:
  "reachable (the (run ex_create_padded app_init)) \<and>
   \<lparr>todo_id = ''t1'', title = ''Buy milk'', completed = False, createdAt = 1\<rparr> \<in> set (todos (server (the (run ex_create_padded app_init)))) \<and>
   trim ''Buy milk'' = ''Buy milk''"
proof -
  have r: "reachable (the (run ex_create_padded app_init))" by (rule reachable_run_init) code_simp
  have t: "\<lparr>todo_id = ''t1'', title = ''Buy milk'', completed = False, createdAt = 1\<rparr> \<in> set (todos (server (the (run ex_create_padded app_init))))"
    by code_simp
  from r t stored_titles_normalised [OF r t] show ?thesis by simp
qed

text \<open>
  C25. A dialog the user dismissed (backdrop click or Escape) stays referenced by the effects; the later success action closes it again, which changes nothing and raises no error.
\<close>
theorem dismissed_dialog_success_harmless:
  assumes "createDialogRef d = Some r" and "r < length (mat d)" and "\<not> is_open (mat d ! r)"
    and "hideCreate_sub d \<noteq> Stopped"
  shows "dialog_effects (CreateSuccess t) d = d"
  using assms
  by (simp add: dialog_effects_def dialog_effect_defs run_tap_close_ref Let_def mat_close_closed)

theorem dismissed_dialog_success_harmless_witness:
  "createDialogRef (ui (the (run ex_dismissed app_init))) = Some 0 \<and>
   0 < length (mat (ui (the (run ex_dismissed app_init)))) \<and>
   \<not> is_open (mat (ui (the (run ex_dismissed app_init))) ! 0) \<and>
   hideCreate_sub (ui (the (run ex_dismissed app_init))) \<noteq> Stopped \<and>
   dialog_effects (CreateSuccess \<lparr>todo_id = ''t1'', title = ''Buy milk'', completed = False, createdAt = 1\<rparr>)
     (ui (the (run ex_dismissed app_init))) = ui (the (run ex_dismissed app_init))"
proof -
  have a: "createDialogRef (ui (the (run ex_dismissed app_init))) = Some 0" by code_simp
  have b: "0 < length (mat (ui (the (run ex_dismissed app_init))))" by code_simp
  have c: "\<not> is_open (mat (ui (the (run ex_dismissed app_init))) ! 0)" by code_simp
  have d: "hideCreate_sub (ui (the (run ex_dismissed app_init))) \<noteq> Stopped" by code_simp
  from a b c d dismissed_dialog_success_harmless [OF a b c d] show ?thesis by blast
qed

text \<open>
  C26. A create whose title is only white space is rejected by the service: the create$ answer is createFailure with ValidationError and the message title must not be blank, the server is untouched and no dialog is closed, so the create dialog stays open.
\<close>
theorem blank_title_rejected:
  assumes "create_queue (rx s) = ttl # rest" and "trim ttl = []"
  shows "\<exists>s'. respond CreateSlot Delivered s = Some s' \<and> server s' = server s \<and> ui s' = ui s \<and>
           create_queue (rx s') = rest \<and>
           store_log s' = store_log s @ [CreateFailure (ValidationError, ''title must not be blank'')]"
  using respond_create_Delivered [OF assms(1)] assms(2)
  by (simp add: service_create_blank create_answer_def dialog_effects_def dialog_effect_defs)

theorem blank_title_rejected_witness:
  "create_queue (rx (the (run ex_blank app_init))) = [''   ''] \<and> trim ''   '' = [] \<and>
   (\<exists>s'. respond CreateSlot Delivered (the (run ex_blank app_init)) = Some s' \<and>
      ui s' = ui (the (run ex_blank app_init)))"
proof -
  have q: "create_queue (rx (the (run ex_blank app_init))) = [''   '']" by code_simp
  have b: "trim ''   '' = []" by code_simp
  from q b blank_title_rejected [OF q b] show ?thesis by blast
qed

text \<open>
  C27. Pending creates are numbered in submission order: draining the create slot with every call delivered logs one createSuccess per pending title, in queue order, with ids t(seq), t(seq+1), ... and the trimmed titles.
\<close>
theorem creates_numbered_in_order:
  assumes "\<forall>t\<in>set (create_queue (rx s)). trim t \<noteq> []"
  shows "store_log (drain CreateSlot s) =
           store_log s @ map CreateSuccess (created_from (seq (server s)) (create_queue (rx s)))"
  using assms
proof (induction "create_queue (rx s)" arbitrary: s)
  case Nil
  then have "respond CreateSlot Delivered s = None" by (simp add: respond_None_iff pending_def)
  then have "drain CreateSlot s = s" by simp
  with Nil.hyps show ?case by simp
next
  case (Cons t rest)
  let ?s1 = "complete Delivered (ReqCreate t) (snd (service_create t (server s)))
             (create_answer (fst (service_create t (server s))))
             (s\<lparr>rx := (rx s)\<lparr>create_queue := rest\<rparr>\<rparr>)"
  have r: "respond CreateSlot Delivered s = Some ?s1"
    using respond_create_Delivered [OF Cons.hyps(2) [symmetric]] .
  have t: "trim t \<noteq> []" using Cons.prems Cons.hyps(2) by (metis list.set_intros(1))
  have q: "rest = create_queue (rx ?s1)" by simp
  have p: "\<forall>t\<in>set (create_queue (rx ?s1)). trim t \<noteq> []"
    using Cons.prems Cons.hyps(2) by (metis list.set_intros(2) q)
  have "drain CreateSlot s = drain CreateSlot ?s1" using r by simp
  with Cons.hyps(1) [OF q p] Cons.hyps(2) [symmetric] t show ?case
    by (simp add: service_create_nonblank create_answer_def)
qed

theorem creates_numbered_in_order_witness:
  "create_queue (rx (the (run ex_two_creates app_init))) = [''Buy milk'', '' Call mom''] \<and>
   store_log (drain CreateSlot (the (run ex_two_creates app_init))) =
     [Create ''Buy milk'', Create '' Call mom'',
      CreateSuccess \<lparr>todo_id = ''t1'', title = ''Buy milk'', completed = False, createdAt = 1\<rparr>,
      CreateSuccess \<lparr>todo_id = ''t2'', title = ''Call mom'', completed = False, createdAt = 2\<rparr>]"
proof -
  have q: "create_queue (rx (the (run ex_two_creates app_init))) = [''Buy milk'', '' Call mom'']" by code_simp
  have t: "trim ''Buy milk'' \<noteq> [] \<and> trim '' Call mom'' \<noteq> []" by code_simp
  with q have h: "\<forall>t\<in>set (create_queue (rx (the (run ex_two_creates app_init)))). trim t \<noteq> []" by simp
  have l: "store_log (the (run ex_two_creates app_init)) = [Create ''Buy milk'', Create '' Call mom'']" by code_simp
  have n: "seq (server (the (run ex_two_creates app_init))) = 1" by code_simp
  have c: "map CreateSuccess (created_from 1 [''Buy milk'', '' Call mom'']) =
     [CreateSuccess \<lparr>todo_id = ''t1'', title = ''Buy milk'', completed = False, createdAt = 1\<rparr>,
      CreateSuccess \<lparr>todo_id = ''t2'', title = ''Call mom'', completed = False, createdAt = 2\<rparr>]" by code_simp
  from q l n c creates_numbered_in_order [OF h] show ?thesis by simp
qed

text \<open>
  C28. Reads are idempotent (spec 8): answering a loadAll clears the in-flight request and leaves the store unchanged, and dispatching the same loadAll again and answering it against the unmodified store clears it again and dispatches the same answer action, the page findAll computes.
\<close>
theorem loadAll_idempotent_read:
  assumes "loadAll_inflight (rx s) = Some (off, lim)"
  shows "\<exists>s1 s2. respond LoadAllSlot Delivered s = Some s1 \<and>
           run [Dispatch (LoadAll off lim), Respond LoadAllSlot Delivered] s1 = Some s2 \<and>
           loadAll_inflight (rx s1) = None \<and> loadAll_inflight (rx s2) = None \<and>
           server s2 = server s \<and> server s1 = server s \<and>
           last (store_log s2) = last (store_log s1) \<and>
           last (store_log s1) = loadAll_answer (repo_findAll off lim (server s))"
proof -
  obtain s1 where r1: "respond LoadAllSlot Delivered s = Some s1" and sv1: "server s1 = server s"
    and q1: "loadAll_inflight (rx s1) = None"
    and l1: "store_log s1 = store_log s @ [loadAll_answer (repo_findAll off lim (server s))]"
    using respond_loadAll_answer [OF assms, of Delivered] by (auto simp: service_loadAll_def)
  let ?t = "dispatch (LoadAll off lim) s1"
  have qt: "loadAll_inflight (rx ?t) = Some (off, lim)" by (simp add: data_effect_defs)
  obtain s2 where r2: "respond LoadAllSlot Delivered ?t = Some s2" and sv2: "server s2 = server ?t"
    and q2: "loadAll_inflight (rx s2) = None"
    and l2: "store_log s2 = store_log ?t @ [loadAll_answer (repo_findAll off lim (server ?t))]"
    using respond_loadAll_answer [OF qt, of Delivered] by (auto simp: service_loadAll_def)
  have "run [Dispatch (LoadAll off lim), Respond LoadAllSlot Delivered] s1 = Some s2"
    using r2 by simp
  with r1 sv1 q1 l1 sv2 q2 l2 show ?thesis by auto
qed

theorem loadAll_idempotent_read_witness:
  "loadAll_inflight (rx (the (run ex_load_page app_init))) = Some (0, 10) \<and>
   (\<exists>s1. respond LoadAllSlot Delivered (the (run ex_load_page app_init)) = Some s1 \<and>
      last (store_log s1) = LoadAllSuccess [])"
proof -
  have q: "loadAll_inflight (rx (the (run ex_load_page app_init))) = Some (0, 10)" by code_simp
  have e: "todos (server (the (run ex_load_page app_init))) = []" by code_simp
  from q e loadAll_idempotent_read [OF q] show ?thesis
    by (auto simp: repo_findAll_def loadAll_answer_def)
qed

text \<open>
  C29. load$ answers the head of its queue: the answer removes that request from the queue, dispatches the answer action of the service's find result (or of the transport error), records the request at the server when delivered, and changes neither the store nor any dialog.
\<close>
theorem load_serves_head_readonly:
  assumes "load_queue (rx s) = i # rest"
  shows "\<exists>s'. respond LoadSlot tr s = Some s' \<and> load_queue (rx s') = rest \<and>
           server s' = server s \<and> ui s' = ui s \<and>
           server_log s' = server_log s @ served tr (ReqLoad i) \<and>
           store_log s' = store_log s @ [load_answer (fst (over_http tr (service_load i) (server s)))]"
proof -
  have "snd (over_http tr (service_load i) (server s)) = server s"
    by (cases tr) (simp_all add: service_load_def)
  with respond_load_eq [OF assms, of tr] show ?thesis by simp
qed

theorem load_serves_head_readonly_witness:
  "load_queue (rx (the (run ex_load_one app_init))) = [''t1''] \<and>
   (\<exists>s'. respond LoadSlot Delivered (the (run ex_load_one app_init)) = Some s' \<and>
      load_queue (rx s') = [] \<and>
      store_log s' = store_log (the (run ex_load_one app_init)) @ [LoadFailure (NotFound, ''no such todo'')])"
proof -
  have q: "load_queue (rx (the (run ex_load_one app_init))) = [''t1'']" by code_simp
  have f: "fst (over_http Delivered (service_load ''t1'') (server (the (run ex_load_one app_init)))) =
     Failure NotFound ''no such todo''" by code_simp
  from q f load_serves_head_readonly [OF q, of Delivered] show ?thesis by (simp add: load_answer_def) blast
qed

text \<open>
  C30. An update whose new title is only white space is rejected by the service: the update$ answer is updateFailure with ValidationError and the message title must not be blank, the server is untouched and the edit dialog stays open.
\<close>
theorem blank_update_rejected:
  assumes "update_queue (rx s) = (i, p) # rest" and "patch_title p = Some ttl" and "trim ttl = []"
  shows "\<exists>s'. respond UpdateSlot Delivered s = Some s' \<and> server s' = server s \<and> ui s' = ui s \<and>
           update_queue (rx s') = rest \<and>
           store_log s' = store_log s @ [UpdateFailure (ValidationError, ''title must not be blank'')]"
  using respond_update_Delivered_eq [OF assms(1)] assms(2,3)
  by (simp add: service_update_blank update_answer_def dialog_effects_def dialog_effect_defs)

theorem blank_update_rejected_witness:
  "update_queue (rx (the (run ex_blank_edit app_init))) = [(''t1'', \<lparr>patch_title = Some '' '', patch_completed = None\<rparr>)] \<and>
   patch_title \<lparr>patch_title = Some '' '', patch_completed = None\<rparr> = Some '' '' \<and> trim '' '' = [] \<and>
   (\<exists>s'. respond UpdateSlot Delivered (the (run ex_blank_edit app_init)) = Some s' \<and>
      ui s' = ui (the (run ex_blank_edit app_init)))"
proof -
  have q: "update_queue (rx (the (run ex_blank_edit app_init))) = [(''t1'', \<lparr>patch_title = Some '' '', patch_completed = None\<rparr>)]"
    by code_simp
  have p: "patch_title \<lparr>patch_title = Some '' '', patch_completed = None\<rparr> = Some '' ''" by simp
  have b: "trim '' '' = []" by code_simp
  from q p b blank_update_rejected [OF q p b] show ?thesis by blast
qed

end
